theory Spec2Isabelle
  imports Complex_Main
begin

section \<open>Numbers, vectors and the random source\<close>

text \<open>
  The simulation computes on JavaScript numbers. They are modelled as \<^typ>\<open>real\<close>:
  arithmetic is exact, and NaN and the infinities have no counterpart. (The one property
  that rounding breaks, the bound of the battleship's speed, is stated on a second model of
  the battleship's tick in which every operation is rounded.) The places where the
  source relies on a NaN (the retention filter of the scheduler) are modelled by an optional
  value. Counters that only ever hold non-negative integers are \<^typ>\<open>nat\<close>.

  Several classes of the source use the same field names (\<open>position\<close>, \<open>velocity\<close>,
  \<open>target\<close>, ...). A record field is a constant of the theory, so the fields of a class carry
  a prefix: \<open>bs_\<close> Battleship, \<open>sb_\<close> Smartbomb, \<open>ms_\<close> Missile, \<open>en_\<close> EnemyShip,
  \<open>sm_\<close> SimulationManager. The fields of \<open>stats\<close> keep their names.
  Fields that only hold rendering state (\<open>scene\<close>, \<open>mesh\<close>, the range indicator) and the
  fields \<open>mass\<close>, \<open>inertiaModifier\<close> and \<open>navigationTarget\<close>, which no method reads, are left out.
\<close>

record Vector3 =
  x :: real
  y :: real
  z :: real

text \<open>
  \<open>Math.sqrt(v.x * v.x + v.y * v.y + v.z * v.z)\<close>, the expression the source writes out in
  \<open>Utils.normalize\<close>, \<open>Battleship.update\<close>, \<open>Battleship.updateNavigation\<close> and \<open>EnemyShip.updateMovement\<close>.
\<close>

definition magnitude :: "Vector3 \<Rightarrow> real" where
  "magnitude v = sqrt (x v * x v + y v * y v + z v * z v)"

text \<open>\<open>a || d\<close> on numbers: \<open>a\<close> unless it is falsy (zero).\<close>

definition js_or :: "real \<Rightarrow> real \<Rightarrow> real" where
  "js_or a d = (if a = 0 then d else a)"

text \<open>
  \<open>Math.random()\<close> is a sequence of draws fixed in advance, \<open>R 0, R 1, ...\<close>, and a counter of the
  draws made so far; a function that draws returns the new counter.
\<close>

type_synonym rand = "nat \<Rightarrow> real"

datatype js_error = TypeError

subsection \<open>Utils\<close>

definition Utils_distance3D :: "Vector3 \<Rightarrow> Vector3 \<Rightarrow> real" where
  "Utils_distance3D pos1 pos2 =
     (let dx = x pos2 - x pos1;
          dy = y pos2 - y pos1;
          dz = z pos2 - z pos1
      in sqrt (dx * dx + dy * dy + dz * dz))"

definition Utils_normalize :: "Vector3 \<Rightarrow> Vector3" where
  "Utils_normalize vector =
     (let len = magnitude vector
      in if len = 0 then \<lparr>x = 0, y = 0, z = 0\<rparr>
         else \<lparr>x = x vector / len, y = y vector / len, z = z vector / len\<rparr>)"

definition Utils_randomInt :: "int \<Rightarrow> int \<Rightarrow> rand \<Rightarrow> nat \<Rightarrow> int \<times> nat" where
  "Utils_randomInt lo hi R k = (\<lfloor>R k * real_of_int (hi - lo + 1)\<rfloor> + lo, Suc k)"

definition Utils_randomFloat :: "real \<Rightarrow> real \<Rightarrow> rand \<Rightarrow> nat \<Rightarrow> real \<times> nat" where
  "Utils_randomFloat lo hi R k = (R k * (hi - lo) + lo, Suc k)"

definition Utils_calculateMissileDamage :: "real \<Rightarrow> real \<Rightarrow> real \<Rightarrow> real \<Rightarrow> real \<Rightarrow> real" where
  "Utils_calculateMissileDamage baseDamage targetSigRadius targetVelocity missileExpRadius missileVelocity =
     (let sigFactor = min 1 (targetSigRadius / missileExpRadius);
          velFactor = targetVelocity / missileVelocity
      in baseDamage * sigFactor * (velFactor powr (1 / 2)))"

definition Utils_randomPointOnSphere :: "real \<Rightarrow> rand \<Rightarrow> nat \<Rightarrow> Vector3 \<times> nat" where
  "Utils_randomPointOnSphere radius R k =
     (let theta = R k * pi * 2;
          phi = arccos (2 * R (Suc k) - 1)
      in (\<lparr>x = radius * sin phi * cos theta,
           y = radius * sin phi * sin theta,
           z = radius * cos phi\<rparr>, Suc (Suc k)))"

section \<open>Smartbomb and Battleship\<close>

record Smartbomb =
  sb_range :: real
  sb_damage :: real
  sb_cycleTime :: real
  sb_capacitorCost :: real
  sb_isActive :: bool
  sb_isCycling :: bool
  sb_cooldownRemaining :: real
  sb_activationCount :: nat

record Battleship =
  bs_position :: Vector3
  bs_velocity :: Vector3
  bs_targetPosition :: "Vector3 option"
  bs_navigationMode :: "string option"
  bs_baseSpeed :: real
  bs_currentSpeed :: real
  bs_maxSpeed :: real
  bs_signatureRadius :: real
  bs_baseSignatureRadius :: real
  bs_maxShield :: real
  bs_currentShield :: real
  bs_maxArmor :: real
  bs_currentArmor :: real
  bs_maxCapacitor :: real
  bs_currentCapacitor :: real
  bs_capacitorRecharge :: real
  bs_afterburnerActive :: bool
  bs_afterburnerBoost :: real
  bs_afterburnerSigPenalty :: real
  bs_afterburnerCapCost :: real
  bs_mwdActive :: bool
  bs_mwdBoost :: real
  bs_mwdSigPenalty :: real
  bs_mwdCapCost :: real
  bs_mwdCycleTime :: real
  bs_mwdCycleRemaining :: real
  bs_smartbomb :: Smartbomb

definition Smartbomb_new :: Smartbomb where
  "Smartbomb_new =
     \<lparr>sb_range = 7500, sb_damage = 200, sb_cycleTime = 3000, sb_capacitorCost = 600,
      sb_isActive = False, sb_isCycling = False, sb_cooldownRemaining = 0,
      sb_activationCount = 0\<rparr>"

definition Battleship_new :: Battleship where
  "Battleship_new =
     \<lparr>bs_position = \<lparr>x = 0, y = 0, z = 0\<rparr>,
      bs_velocity = \<lparr>x = 0, y = 0, z = 0\<rparr>,
      bs_targetPosition = None,
      bs_navigationMode = None,
      bs_baseSpeed = 125,
      bs_currentSpeed = 0,
      bs_maxSpeed = 125,
      bs_signatureRadius = 400,
      bs_baseSignatureRadius = 400,
      bs_maxShield = 10000,
      bs_currentShield = 10000,
      bs_maxArmor = 8000,
      bs_currentArmor = 8000,
      bs_maxCapacitor = 5000,
      bs_currentCapacitor = 5000,
      bs_capacitorRecharge = 100,
      bs_afterburnerActive = False,
      bs_afterburnerBoost = 3 / 2,
      bs_afterburnerSigPenalty = 11 / 10,
      bs_afterburnerCapCost = 50,
      bs_mwdActive = False,
      bs_mwdBoost = 5,
      bs_mwdSigPenalty = 6,
      bs_mwdCapCost = 200,
      bs_mwdCycleTime = 10000,
      bs_mwdCycleRemaining = 0,
      bs_smartbomb = Smartbomb_new\<rparr>"

subsection \<open>Battleship: one tick\<close>

definition Battleship_updatePropulsion :: "real \<Rightarrow> Battleship \<Rightarrow> Battleship" where
  "Battleship_updatePropulsion deltaTime b0 =
     (let b1 = b0\<lparr>bs_maxSpeed := bs_baseSpeed b0,
                  bs_signatureRadius := bs_baseSignatureRadius b0\<rparr>;
          b2 = (if bs_afterburnerActive b1 then
                  (if bs_currentCapacitor b1 \<ge> bs_afterburnerCapCost b1 then
                     b1\<lparr>bs_maxSpeed := bs_maxSpeed b1 * bs_afterburnerBoost b1,
                        bs_signatureRadius := bs_signatureRadius b1 * bs_afterburnerSigPenalty b1,
                        bs_currentCapacitor := bs_currentCapacitor b1 - bs_afterburnerCapCost b1\<rparr>
                   else b1\<lparr>bs_afterburnerActive := False\<rparr>)
                else b1)
      in if bs_mwdActive b2 then
           (let b3 = b2\<lparr>bs_mwdCycleRemaining := bs_mwdCycleRemaining b2 - deltaTime * 1000\<rparr>
            in if bs_mwdCycleRemaining b3 > 0 \<and> bs_currentCapacitor b3 \<ge> bs_mwdCapCost b3 then
                 b3\<lparr>bs_maxSpeed := bs_maxSpeed b3 * bs_mwdBoost b3,
                    bs_signatureRadius := bs_signatureRadius b3 * bs_mwdSigPenalty b3,
                    bs_currentCapacitor := bs_currentCapacitor b3 - bs_mwdCapCost b3\<rparr>
               else b3\<lparr>bs_mwdActive := False, bs_mwdCycleRemaining := 0\<rparr>)
         else b2)"

definition Battleship_updateNavigation :: "real \<Rightarrow> Battleship \<Rightarrow> Battleship" where
  "Battleship_updateNavigation deltaTime b =
     (case bs_targetPosition b of
        None \<Rightarrow>
          b\<lparr>bs_velocity := \<lparr>x = x (bs_velocity b) * (95 / 100),
                            y = y (bs_velocity b) * (95 / 100),
                            z = z (bs_velocity b) * (95 / 100)\<rparr>\<rparr>
      | Some targetPosition \<Rightarrow>
          (let direction = \<lparr>x = x targetPosition - x (bs_position b),
                           y = y targetPosition - y (bs_position b),
                           z = z targetPosition - z (bs_position b)\<rparr>;
               distance = magnitude direction
           in if distance < 100 then b\<lparr>bs_targetPosition := None\<rparr>
              else
                (let normalized = Utils_normalize direction;
                     acceleration = bs_maxSpeed b * (3 / 10);
                     v1 = \<lparr>x = x (bs_velocity b) + x normalized * acceleration * deltaTime,
                            y = y (bs_velocity b) + y normalized * acceleration * deltaTime,
                            z = z (bs_velocity b) + z normalized * acceleration * deltaTime\<rparr>;
                     currentVel = magnitude v1;
                     v2 = (if currentVel > bs_maxSpeed b then
                             (let ratio = bs_maxSpeed b / currentVel
                              in \<lparr>x = x v1 * ratio, y = y v1 * ratio, z = z v1 * ratio\<rparr>)
                           else v1)
                 in b\<lparr>bs_velocity := v2,
                      bs_position := \<lparr>x = x (bs_position b) + x v2 * deltaTime,
                                      y = y (bs_position b) + y v2 * deltaTime,
                                      z = z (bs_position b) + z v2 * deltaTime\<rparr>\<rparr>)))"

definition Battleship_rechargeCapacitor :: "Battleship \<Rightarrow> Battleship" where
  "Battleship_rechargeCapacitor b =
     b\<lparr>bs_currentCapacitor :=
         min (bs_maxCapacitor b) (bs_currentCapacitor b + bs_capacitorRecharge b)\<rparr>"

text \<open>\<open>Smartbomb.update\<close>: the cooldown loses one tick (1000 ms) whatever the caller's \<open>deltaTime\<close>.\<close>

definition Smartbomb_update :: "Smartbomb \<Rightarrow> Smartbomb" where
  "Smartbomb_update sb =
     (if sb_cooldownRemaining sb > 0 then
        (let sb1 = sb\<lparr>sb_cooldownRemaining := sb_cooldownRemaining sb - 1000\<rparr>
         in if sb_cooldownRemaining sb1 \<le> 0 then sb1\<lparr>sb_isCycling := False\<rparr> else sb1)
      else sb)"

definition Battleship_update :: "real \<Rightarrow> Battleship \<Rightarrow> Battleship" where
  "Battleship_update deltaTime b0 =
     (let b1 = Battleship_updatePropulsion deltaTime b0;
          b2 = Battleship_updateNavigation deltaTime b1;
          b3 = Battleship_rechargeCapacitor b2;
          b4 = b3\<lparr>bs_smartbomb := Smartbomb_update (bs_smartbomb b3)\<rparr>
      in b4\<lparr>bs_currentSpeed := magnitude (bs_velocity b4)\<rparr>)"

subsection \<open>Battleship: commands and damage\<close>

definition Battleship_navigateTo :: "Vector3 \<Rightarrow> string \<Rightarrow> Battleship \<Rightarrow> Battleship" where
  "Battleship_navigateTo pos mode b =
     b\<lparr>bs_targetPosition := Some pos, bs_navigationMode := Some mode\<rparr>"

definition Battleship_toggleAfterburner :: "Battleship \<Rightarrow> bool \<times> Battleship" where
  "Battleship_toggleAfterburner b =
     (let b1 = b\<lparr>bs_afterburnerActive := \<not> bs_afterburnerActive b\<rparr>
      in (bs_afterburnerActive b1, b1))"

definition Battleship_activateMWD :: "Battleship \<Rightarrow> bool \<times> Battleship" where
  "Battleship_activateMWD b =
     (if bs_mwdActive b then (False, b)
      else (True, b\<lparr>bs_mwdActive := True, bs_mwdCycleRemaining := bs_mwdCycleTime b\<rparr>))"

definition Battleship_takeDamage :: "real \<Rightarrow> Battleship \<Rightarrow> Battleship" where
  "Battleship_takeDamage damage b =
     (if bs_currentShield b > 0 then
        (let b1 = b\<lparr>bs_currentShield := bs_currentShield b - damage\<rparr>
         in if bs_currentShield b1 < 0 then
              b1\<lparr>bs_currentArmor := bs_currentArmor b1 + bs_currentShield b1,
                 bs_currentShield := 0\<rparr>
            else b1)
      else if bs_currentArmor b > 0 then
        (let b1 = b\<lparr>bs_currentArmor := bs_currentArmor b - damage\<rparr>
         in if bs_currentArmor b1 < 0 then b1\<lparr>bs_currentArmor := 0\<rparr> else b1)
      else b)"

section \<open>Missile\<close>

text \<open>
  A missile's \<open>target\<close> is a reference that is either null or the player's battleship, the only
  object the source ever passes (\<open>EnemyShip.launchMissileVolley\<close>). The referenced battleship is
  shared and mutated by \<open>impact\<close>, so the methods take the current battleship and return it.
\<close>

datatype target_ref = NoTarget | PlayerTarget

record Missile =
  ms_position :: Vector3
  ms_target :: target_ref
  ms_launcherId :: nat
  ms_maxHP :: real
  ms_currentHP :: real
  ms_velocity :: real
  ms_explosionRadius :: real
  ms_explosionVelocity :: real
  ms_baseDamage :: real
  ms_flightTime :: real
  ms_maxFlightTime :: real
  ms_alive :: bool
  ms_hasImpacted :: bool

definition Missile_new :: "Vector3 \<Rightarrow> target_ref \<Rightarrow> nat \<Rightarrow> Missile" where
  "Missile_new startPos target launcherId =
     \<lparr>ms_position = startPos, ms_target = target, ms_launcherId = launcherId,
      ms_maxHP = 120, ms_currentHP = 120, ms_velocity = 3000,
      ms_explosionRadius = 125, ms_explosionVelocity = 150, ms_baseDamage = 500,
      ms_flightTime = 0, ms_maxFlightTime = 20,
      ms_alive = True, ms_hasImpacted = False\<rparr>"

text \<open>\<open>destroy(reason)\<close>: the reason only selects a visual effect.\<close>

definition Missile_destroy :: "Missile \<Rightarrow> Missile" where
  "Missile_destroy m = (if \<not> ms_alive m then m else m\<lparr>ms_alive := False\<rparr>)"

definition Missile_takeDamage :: "real \<Rightarrow> Missile \<Rightarrow> bool \<times> Missile" where
  "Missile_takeDamage damage m =
     (if \<not> ms_alive m then (False, m)
      else
        (let m1 = m\<lparr>ms_currentHP := ms_currentHP m - damage\<rparr>
         in if ms_currentHP m1 \<le> 0 then (True, Missile_destroy m1) else (False, m1)))"

text \<open>
  \<open>impact()\<close> reads \<open>this.target.currentSpeed\<close> after its guard: on a null target that is a
  TypeError.
\<close>

definition Missile_impact :: "Missile \<Rightarrow> Battleship \<Rightarrow> js_error + (Missile \<times> Battleship)" where
  "Missile_impact m bs =
     (if ms_hasImpacted m \<or> \<not> ms_alive m then Inr (m, bs)
      else
        (let m1 = m\<lparr>ms_hasImpacted := True\<rparr>
         in case ms_target m1 of
              NoTarget \<Rightarrow> Inl TypeError
            | PlayerTarget \<Rightarrow>
                (let targetVelocity = js_or (bs_currentSpeed bs) 0;
                     targetSigRadius = js_or (bs_signatureRadius bs) 400;
                     damage = Utils_calculateMissileDamage (ms_baseDamage m1) targetSigRadius
                                targetVelocity (ms_explosionRadius m1) (ms_explosionVelocity m1)
                 in Inr (Missile_destroy m1, Battleship_takeDamage damage bs))))"

definition Missile_update :: "real \<Rightarrow> Missile \<Rightarrow> Battleship \<Rightarrow> js_error + (Missile \<times> Battleship)" where
  "Missile_update deltaTime m bs =
     (if \<not> ms_alive m \<or> ms_target m = NoTarget then Inr (m, bs)
      else
        (let m1 = m\<lparr>ms_flightTime := ms_flightTime m + deltaTime\<rparr>
         in if ms_flightTime m1 \<ge> ms_maxFlightTime m1 then Inr (Missile_destroy m1, bs)
            else
              (let targetPos = bs_position bs;
                   direction = \<lparr>x = x targetPos - x (ms_position m1),
                                y = y targetPos - y (ms_position m1),
                                z = z targetPos - z (ms_position m1)\<rparr>;
                   normalized = Utils_normalize direction;
                   distance = ms_velocity m1 * deltaTime;
                   m2 = m1\<lparr>ms_position :=
                             \<lparr>x = x (ms_position m1) + x normalized * distance,
                              y = y (ms_position m1) + y normalized * distance,
                              z = z (ms_position m1) + z normalized * distance\<rparr>\<rparr>;
                   distToTarget = Utils_distance3D (ms_position m2) targetPos
               in if distToTarget < 50 then Missile_impact m2 bs else Inr (m2, bs))))"

section \<open>Smartbomb activation\<close>

datatype activate_result =
    Failure string
  | Success nat nat

text \<open>
  \<open>Failure reason\<close> is the object \<open>{success: false, reason}\<close>; \<open>Success d c\<close> is
  \<open>{success: true, missilesDestroyed: d, activationCount: c}\<close>.
\<close>

fun Smartbomb_applyDamage_loop ::
  "Smartbomb \<Rightarrow> Vector3 \<Rightarrow> Missile list \<Rightarrow> nat \<Rightarrow> nat \<times> Missile list" where
  "Smartbomb_applyDamage_loop sb ownerPos [] destroyedCount = (destroyedCount, [])"
| "Smartbomb_applyDamage_loop sb ownerPos (missile # rest) destroyedCount =
     (if \<not> ms_alive missile then
        (let (n, rest') = Smartbomb_applyDamage_loop sb ownerPos rest destroyedCount
         in (n, missile # rest'))
      else
        (let distance = Utils_distance3D ownerPos (ms_position missile)
         in if distance \<le> sb_range sb then
              (let (destroyed, missile') = Missile_takeDamage (sb_damage sb) missile;
                   (n, rest') = Smartbomb_applyDamage_loop sb ownerPos rest
                                  (if destroyed then destroyedCount + 1 else destroyedCount)
               in (n, missile' # rest'))
            else
              (let (n, rest') = Smartbomb_applyDamage_loop sb ownerPos rest destroyedCount
               in (n, missile # rest'))))"

definition Smartbomb_applyDamage :: "Missile list \<Rightarrow> Battleship \<Rightarrow> nat \<times> Missile list" where
  "Smartbomb_applyDamage missiles owner =
     Smartbomb_applyDamage_loop (bs_smartbomb owner) (bs_position owner) missiles 0"

definition Smartbomb_activate ::
  "Missile list \<Rightarrow> Battleship \<Rightarrow> activate_result \<times> Battleship \<times> Missile list" where
  "Smartbomb_activate missiles owner =
     (if sb_isCycling (bs_smartbomb owner) then (Failure ''cycling'', owner, missiles)
      else if bs_currentCapacitor owner < sb_capacitorCost (bs_smartbomb owner) then
        (Failure ''no_cap'', owner, missiles)
      else
        (let sb = bs_smartbomb owner;
             owner1 = owner\<lparr>bs_currentCapacitor := bs_currentCapacitor owner - sb_capacitorCost sb\<rparr>;
             sb1 = sb\<lparr>sb_isCycling := True,
                      sb_cooldownRemaining := sb_cycleTime sb,
                      sb_activationCount := sb_activationCount sb + 1\<rparr>;
             owner2 = owner1\<lparr>bs_smartbomb := sb1\<rparr>;
             (missilesDestroyed, missiles') = Smartbomb_applyDamage missiles owner2
         in (Success missilesDestroyed (sb_activationCount sb1), owner2, missiles')))"

definition Battleship_activateSmartbomb ::
  "Missile list \<Rightarrow> Battleship \<Rightarrow> activate_result \<times> Battleship \<times> Missile list" where
  "Battleship_activateSmartbomb missiles b = Smartbomb_activate missiles b"

section \<open>EnemyShip\<close>

datatype behavior = Orbit | KeepRange | ApproachRetreat

record EnemyShip =
  en_id :: nat
  en_target :: target_ref
  en_position :: Vector3
  en_shipType :: "string option"
  en_velocity :: Vector3
  en_currentSpeed :: real
  en_maxSpeed :: real
  en_signatureRadius :: real
  en_targetPosition :: "Vector3 option"
  en_behaviorChangeTimer :: real
  en_behaviorChangeInterval :: real
  en_missileTimer :: real
  en_missileLaunchInterval :: real
  en_volleySize :: int
  en_launchedMissiles :: "Missile list"

text \<open>\<open>array[Math.floor(Math.random() * array.length)]\<close>: \<open>undefined\<close> (None) outside the array.\<close>

definition random_element :: "'a list \<Rightarrow> rand \<Rightarrow> nat \<Rightarrow> 'a option \<times> nat" where
  "random_element xs R k =
     (let i = \<lfloor>R k * real (length xs)\<rfloor>
      in (if 0 \<le> i \<and> i < int (length xs) then Some (xs ! nat i) else None, Suc k))"

definition EnemyShip_randomShipType :: "rand \<Rightarrow> nat \<Rightarrow> string option \<times> nat" where
  "EnemyShip_randomShipType R k =
     random_element [''Frigate'', ''Destroyer'', ''Cruiser'', ''Battlecruiser''] R k"

definition EnemyShip_chooseNewBehavior ::
  "EnemyShip \<Rightarrow> Battleship \<Rightarrow> rand \<Rightarrow> nat \<Rightarrow> EnemyShip \<times> nat" where
  "EnemyShip_chooseNewBehavior e bs R k =
     (case en_target e of
        NoTarget \<Rightarrow> (e, k)
      | PlayerTarget \<Rightarrow>
          (let (behavior, k1) = random_element [Orbit, KeepRange, ApproachRetreat] R k;
               targetPos = bs_position bs;
               (e1, k2) =
                 (case behavior of
                    Some Orbit \<Rightarrow>
                      (let (orbitDist, ka) = Utils_randomFloat 30000 70000 R k1;
                           (offset, kb) = Utils_randomPointOnSphere orbitDist R ka
                       in (e\<lparr>en_targetPosition :=
                                Some \<lparr>x = x targetPos + x offset,
                                      y = y targetPos + y offset,
                                      z = z targetPos + z offset\<rparr>\<rparr>, kb))
                  | Some KeepRange \<Rightarrow>
                      (let (keepDist, ka) = Utils_randomFloat 40000 80000 R k1;
                           direction = Utils_normalize
                                         \<lparr>x = x (en_position e) - x targetPos,
                                          y = y (en_position e) - y targetPos,
                                          z = z (en_position e) - z targetPos\<rparr>
                       in (e\<lparr>en_targetPosition :=
                                Some \<lparr>x = x targetPos + x direction * keepDist,
                                      y = y targetPos + y direction * keepDist,
                                      z = z targetPos + z direction * keepDist\<rparr>\<rparr>, ka))
                  | Some ApproachRetreat \<Rightarrow>
                      (let (dist, ka) = Utils_randomFloat 50000 90000 R k1;
                           (offset, kb) = Utils_randomPointOnSphere dist R ka
                       in (e\<lparr>en_targetPosition :=
                                Some \<lparr>x = x targetPos + x offset,
                                      y = y targetPos + y offset,
                                      z = z targetPos + z offset\<rparr>\<rparr>, kb))
                  | None \<Rightarrow> (e, k1));
               (speed, k3) = Utils_randomFloat 200 600 R k2
           in (e1\<lparr>en_maxSpeed := speed\<rparr>, k3)))"

definition EnemyShip_updateMovement :: "real \<Rightarrow> EnemyShip \<Rightarrow> EnemyShip" where
  "EnemyShip_updateMovement deltaTime e =
     (case en_targetPosition e of
        None \<Rightarrow> e
      | Some targetPosition \<Rightarrow>
          (let direction = \<lparr>x = x targetPosition - x (en_position e),
                           y = y targetPosition - y (en_position e),
                           z = z targetPosition - z (en_position e)\<rparr>;
               normalized = Utils_normalize direction;
               acceleration = en_maxSpeed e * (2 / 10);
               v1 = \<lparr>x = x (en_velocity e) + x normalized * acceleration * deltaTime,
                      y = y (en_velocity e) + y normalized * acceleration * deltaTime,
                      z = z (en_velocity e) + z normalized * acceleration * deltaTime\<rparr>;
               currentVel = magnitude v1;
               v2 = (if currentVel > en_maxSpeed e then
                       (let ratio = en_maxSpeed e / currentVel
                        in \<lparr>x = x v1 * ratio, y = y v1 * ratio, z = z v1 * ratio\<rparr>)
                     else v1)
           in e\<lparr>en_velocity := v2,
                en_currentSpeed := currentVel,
                en_position := \<lparr>x = x (en_position e) + x v2 * deltaTime,
                                y = y (en_position e) + y v2 * deltaTime,
                                z = z (en_position e) + z v2 * deltaTime\<rparr>\<rparr>))"

text \<open>
  The \<open>for\<close> loop of \<open>launchMissileVolley\<close>, by the number of iterations left: each iteration
  draws the three offsets in the order x, y, z.
\<close>

fun EnemyShip_volley_loop ::
  "nat \<Rightarrow> EnemyShip \<Rightarrow> rand \<Rightarrow> nat \<Rightarrow> Missile list \<Rightarrow> Missile list \<times> EnemyShip \<times> nat" where
  "EnemyShip_volley_loop 0 e R k missiles = (missiles, e, k)"
| "EnemyShip_volley_loop (Suc n) e R k missiles =
     (let (ox, k1) = Utils_randomFloat (- 10) 10 R k;
          (oy, k2) = Utils_randomFloat (- 10) 10 R k1;
          (oz, k3) = Utils_randomFloat (- 10) 10 R k2;
          launchPos = \<lparr>x = x (en_position e) + ox,
                       y = y (en_position e) + oy,
                       z = z (en_position e) + oz\<rparr>;
          missile = Missile_new launchPos (en_target e) (en_id e)
      in EnemyShip_volley_loop n
           (e\<lparr>en_launchedMissiles := en_launchedMissiles e @ [missile]\<rparr>) R k3
           (missiles @ [missile]))"

definition EnemyShip_launchMissileVolley ::
  "EnemyShip \<Rightarrow> rand \<Rightarrow> nat \<Rightarrow> Missile list \<times> EnemyShip \<times> nat" where
  "EnemyShip_launchMissileVolley e R k =
     (if en_target e = NoTarget then ([], e, k)
      else EnemyShip_volley_loop (nat (en_volleySize e)) e R k [])"

text \<open>
  \<open>update\<close> calls \<open>launchMissileVolley()\<close> as a statement: the returned array is dropped, and
  the new missiles stay only in the ship's own \<open>launchedMissiles\<close>.
\<close>

definition EnemyShip_update ::
  "real \<Rightarrow> EnemyShip \<Rightarrow> Battleship \<Rightarrow> rand \<Rightarrow> nat \<Rightarrow> EnemyShip \<times> nat" where
  "EnemyShip_update deltaTime e0 bs R k =
     (let e1 = e0\<lparr>en_behaviorChangeTimer := en_behaviorChangeTimer e0 - deltaTime\<rparr>;
          (e2, k1) =
            (if en_behaviorChangeTimer e1 \<le> 0 then
               (let (ea, ka) = EnemyShip_chooseNewBehavior e1 bs R k
                in (ea\<lparr>en_behaviorChangeTimer := en_behaviorChangeInterval ea\<rparr>, ka))
             else (e1, k));
          e3 = EnemyShip_updateMovement deltaTime e2;
          e4 = e3\<lparr>en_missileTimer := en_missileTimer e3 - deltaTime\<rparr>
      in if en_missileTimer e4 \<le> 0 \<and> en_target e4 \<noteq> NoTarget then
           (let (launched, e5, k2) = EnemyShip_launchMissileVolley e4 R k1
            in (e5\<lparr>en_missileTimer := en_missileLaunchInterval e5\<rparr>, k2))
         else (e4, k1))"

text \<open>
  The constructor; \<open>startPosition\<close> is optional, and the random draws are made in the order of
  the assignments.
\<close>

definition EnemyShip_new ::
  "nat \<Rightarrow> target_ref \<Rightarrow> Vector3 option \<Rightarrow> Battleship \<Rightarrow> rand \<Rightarrow> nat \<Rightarrow> EnemyShip \<times> nat" where
  "EnemyShip_new ident target startPosition bs R k =
     (let (pos, k1) =
            (case startPosition of
               Some p \<Rightarrow> (p, k)
             | None \<Rightarrow>
                 (let (radius, ka) = Utils_randomFloat 40000 80000 R k
                  in Utils_randomPointOnSphere radius R ka));
          (shipType, k2) = EnemyShip_randomShipType R k1;
          (maxSpeed, k3) = Utils_randomFloat 200 600 R k2;
          (behaviorChangeTimer, k4) = Utils_randomFloat 5 20 R k3;
          (behaviorChangeInterval, k5) = Utils_randomFloat 5 20 R k4;
          (missileTimer, k6) = Utils_randomFloat 3 8 R k5;
          (missileLaunchInterval, k7) = Utils_randomFloat 5 10 R k6;
          (volleySize, k8) = Utils_randomInt 3 6 R k7
      in EnemyShip_chooseNewBehavior
           \<lparr>en_id = ident, en_target = target, en_position = pos, en_shipType = shipType,
            en_velocity = \<lparr>x = 0, y = 0, z = 0\<rparr>, en_currentSpeed = 0,
            en_maxSpeed = maxSpeed, en_signatureRadius = 125, en_targetPosition = None,
            en_behaviorChangeTimer = behaviorChangeTimer,
            en_behaviorChangeInterval = behaviorChangeInterval,
            en_missileTimer = missileTimer,
            en_missileLaunchInterval = missileLaunchInterval,
            en_volleySize = volleySize, en_launchedMissiles = []\<rparr> bs R k8)"

section \<open>SimulationManager\<close>

record Stats =
  missilesLaunched :: nat
  missilesDestroyed :: nat
  smartbombCycles :: nat
  sessionStartTime :: real

record SimulationManager =
  sm_battleship :: Battleship
  sm_enemies :: "EnemyShip list"
  sm_tickRate :: real
  sm_lastTickTime :: real
  sm_accumulator :: real
  sm_missiles :: "Missile list"
  sm_stats :: Stats
  sm_isRunning :: bool

text \<open>The constructor; \<open>now\<close> is the value of \<open>Date.now()\<close>.\<close>

definition SimulationManager_new :: "Battleship \<Rightarrow> EnemyShip list \<Rightarrow> real \<Rightarrow> SimulationManager" where
  "SimulationManager_new battleship enemies now =
     \<lparr>sm_battleship = battleship, sm_enemies = enemies, sm_tickRate = 1000,
      sm_lastTickTime = 0, sm_accumulator = 0, sm_missiles = [],
      sm_stats = \<lparr>missilesLaunched = 0, missilesDestroyed = 0, smartbombCycles = 0,
                  sessionStartTime = now\<rparr>,
      sm_isRunning = False\<rparr>"

definition SimulationManager_checkEnemyMissileLaunch :: "EnemyShip \<Rightarrow> Missile list" where
  "SimulationManager_checkEnemyMissileLaunch enemy = []"

text \<open>The body of \<open>this.enemies.forEach\<close> in \<open>tick\<close>, over the enemies in order.\<close>

fun SimulationManager_tick_enemies ::
  "real \<Rightarrow> EnemyShip list \<Rightarrow> Battleship \<Rightarrow> rand \<Rightarrow> nat \<Rightarrow> Missile list \<Rightarrow> Stats
     \<Rightarrow> EnemyShip list \<times> Missile list \<times> Stats \<times> nat" where
  "SimulationManager_tick_enemies deltaTime [] bs R k missiles stats = ([], missiles, stats, k)"
| "SimulationManager_tick_enemies deltaTime (enemy # rest) bs R k missiles stats =
     (let (enemy', k1) = EnemyShip_update deltaTime enemy bs R k;
          newMissiles = SimulationManager_checkEnemyMissileLaunch enemy';
          (missiles1, stats1) =
            (if length newMissiles > 0 then
               (missiles @ newMissiles,
                stats\<lparr>missilesLaunched := missilesLaunched stats + length newMissiles\<rparr>)
             else (missiles, stats));
          (rest', missiles2, stats2, k2) =
            SimulationManager_tick_enemies deltaTime rest bs R k1 missiles1 stats1
      in (enemy' # rest', missiles2, stats2, k2))"

text \<open>
  The body of \<open>this.missiles.forEach\<close> in \<open>tick\<close>: every missile's target is the one battleship,
  so an impact is seen by the missiles updated after it. An exception ends the tick.
\<close>

fun SimulationManager_tick_missiles ::
  "real \<Rightarrow> Missile list \<Rightarrow> Battleship \<Rightarrow> js_error + (Missile list \<times> Battleship)" where
  "SimulationManager_tick_missiles deltaTime [] bs = Inr ([], bs)"
| "SimulationManager_tick_missiles deltaTime (missile # rest) bs =
     (if ms_alive missile then
        (case Missile_update deltaTime missile bs of
           Inl err \<Rightarrow> Inl err
         | Inr (missile', bs1) \<Rightarrow>
             (case SimulationManager_tick_missiles deltaTime rest bs1 of
                Inl err \<Rightarrow> Inl err
              | Inr (rest', bs2) \<Rightarrow> Inr (missile' # rest', bs2)))
      else
        (case SimulationManager_tick_missiles deltaTime rest bs of
           Inl err \<Rightarrow> Inl err
         | Inr (rest', bs2) \<Rightarrow> Inr (missile # rest', bs2)))"

text \<open>
  No constructor and no method of the source assigns \<open>destroyTime\<close>: reading the property of
  a missile gives \<open>undefined\<close> (None).
\<close>

definition Missile_destroyTime :: "Missile \<Rightarrow> real option" where
  "Missile_destroyTime m = None"

text \<open>
  The filter predicate \<open>m.alive || (Date.now() - m.destroyTime < 1000)\<close>: with an undefined
  \<open>destroyTime\<close> the difference is NaN, and a comparison with NaN is false.
\<close>

definition SimulationManager_retained :: "real \<Rightarrow> Missile \<Rightarrow> bool" where
  "SimulationManager_retained now m =
     (ms_alive m \<or> (case Missile_destroyTime m of None \<Rightarrow> False | Some t \<Rightarrow> now - t < 1000))"

text \<open>
  \<open>tick()\<close>; \<open>now\<close> is the value of \<open>Date.now()\<close> in the filter. The update callback only
  passes the state to the HUD.
\<close>

definition SimulationManager_tick ::
  "real \<Rightarrow> rand \<Rightarrow> nat \<Rightarrow> SimulationManager \<Rightarrow> js_error + (SimulationManager \<times> nat)" where
  "SimulationManager_tick now R k s =
     (let deltaTime = sm_tickRate s / 1000;
          bs1 = Battleship_update deltaTime (sm_battleship s);
          (enemies1, missiles1, stats1, k1) =
            SimulationManager_tick_enemies deltaTime (sm_enemies s) bs1 R k
              (sm_missiles s) (sm_stats s)
      in case SimulationManager_tick_missiles deltaTime missiles1 bs1 of
           Inl err \<Rightarrow> Inl err
         | Inr (missiles2, bs2) \<Rightarrow>
             Inr (s\<lparr>sm_battleship := bs2, sm_enemies := enemies1,
                    sm_missiles := filter (SimulationManager_retained now) missiles2,
                    sm_stats := stats1\<rparr>, k1))"

definition SimulationManager_activateSmartbomb ::
  "SimulationManager \<Rightarrow> activate_result \<times> SimulationManager" where
  "SimulationManager_activateSmartbomb s =
     (let (result, bs1, missiles1) = Battleship_activateSmartbomb (sm_missiles s) (sm_battleship s);
          s1 = s\<lparr>sm_battleship := bs1, sm_missiles := missiles1\<rparr>
      in case result of
           Success destroyed count \<Rightarrow>
             (result, s1\<lparr>sm_stats := (sm_stats s1)\<lparr>smartbombCycles := smartbombCycles (sm_stats s1) + 1,
                                      missilesDestroyed := missilesDestroyed (sm_stats s1) + destroyed\<rparr>\<rparr>)
         | Failure reason \<Rightarrow> (result, s1))"

definition SimulationManager_addMissiles :: "Missile list \<Rightarrow> SimulationManager \<Rightarrow> SimulationManager" where
  "SimulationManager_addMissiles new s =
     s\<lparr>sm_missiles := sm_missiles s @ new,
       sm_stats := (sm_stats s)\<lparr>missilesLaunched := missilesLaunched (sm_stats s) + length new\<rparr>\<rparr>"

section \<open>The battleship's tick in rounded arithmetic\<close>

text \<open>
  The program computes on IEEE doubles, and one property below, the bound of the speed by
  \<open>maxSpeed\<close>, does not survive rounding as it stands in exact arithmetic. For it the tick of
  the battleship is modelled a second time, with an explicit rounding \<open>rnd\<close> applied to the
  result of every arithmetic operation and to every decimal literal, in the order in which
  JavaScript evaluates them (\<open>a * b * c\<close> is \<open>(a * b) * c\<close>, \<open>p += e\<close> is \<open>p = p + e\<close>).
  Comparisons, assignments and \<open>Math.min\<close> are exact.

  \<open>rounding_model rnd u\<close> is the standard model of floating-point arithmetic: every rounded
  result is within the relative error \<open>u\<close>, the unit roundoff, of the exact one. IEEE doubles
  rounded to nearest satisfy it with \<open>u = 2^-53\<close> as long as nothing overflows or underflows.
\<close>

definition rounding_model :: "(real \<Rightarrow> real) \<Rightarrow> real \<Rightarrow> bool" where
  "rounding_model rnd u = (0 \<le> u \<and> u < 1 \<and> (\<forall>t. \<bar>rnd t - t\<bar> \<le> u * \<bar>t\<bar>))"

text \<open>
  \<open>Math.sqrt(v.x * v.x + v.y * v.y + v.z * v.z)\<close> with every operation rounded, and the tick
  of the battleship (\<open>Utils.normalize\<close>, \<open>updatePropulsion\<close>, \<open>updateNavigation\<close>,
  \<open>rechargeCapacitor\<close>, \<open>Smartbomb.update\<close>, \<open>update\<close>) over it.
\<close>

definition magnitude_fl :: "(real \<Rightarrow> real) \<Rightarrow> Vector3 \<Rightarrow> real" where
  "magnitude_fl rnd v =
     rnd (sqrt (rnd (rnd (rnd (x v * x v) + rnd (y v * y v)) + rnd (z v * z v))))"

definition Utils_normalize_fl :: "(real \<Rightarrow> real) \<Rightarrow> Vector3 \<Rightarrow> Vector3" where
  "Utils_normalize_fl rnd vector =
     (let len = magnitude_fl rnd vector
      in if len = 0 then \<lparr>x = 0, y = 0, z = 0\<rparr>
         else \<lparr>x = rnd (x vector / len), y = rnd (y vector / len), z = rnd (z vector / len)\<rparr>)"

definition Battleship_updatePropulsion_fl :: "(real \<Rightarrow> real) \<Rightarrow> real \<Rightarrow> Battleship \<Rightarrow> Battleship" where
  "Battleship_updatePropulsion_fl rnd deltaTime b0 =
     (let b1 = b0\<lparr>bs_maxSpeed := bs_baseSpeed b0,
                  bs_signatureRadius := bs_baseSignatureRadius b0\<rparr>;
          b2 = (if bs_afterburnerActive b1 then
                  (if bs_currentCapacitor b1 \<ge> bs_afterburnerCapCost b1 then
                     b1\<lparr>bs_maxSpeed := rnd (bs_maxSpeed b1 * bs_afterburnerBoost b1),
                        bs_signatureRadius :=
                          rnd (bs_signatureRadius b1 * bs_afterburnerSigPenalty b1),
                        bs_currentCapacitor :=
                          rnd (bs_currentCapacitor b1 - bs_afterburnerCapCost b1)\<rparr>
                   else b1\<lparr>bs_afterburnerActive := False\<rparr>)
                else b1)
      in if bs_mwdActive b2 then
           (let b3 = b2\<lparr>bs_mwdCycleRemaining :=
                          rnd (bs_mwdCycleRemaining b2 - rnd (deltaTime * 1000))\<rparr>
            in if bs_mwdCycleRemaining b3 > 0 \<and> bs_currentCapacitor b3 \<ge> bs_mwdCapCost b3 then
                 b3\<lparr>bs_maxSpeed := rnd (bs_maxSpeed b3 * bs_mwdBoost b3),
                    bs_signatureRadius := rnd (bs_signatureRadius b3 * bs_mwdSigPenalty b3),
                    bs_currentCapacitor := rnd (bs_currentCapacitor b3 - bs_mwdCapCost b3)\<rparr>
               else b3\<lparr>bs_mwdActive := False, bs_mwdCycleRemaining := 0\<rparr>)
         else b2)"

definition Battleship_updateNavigation_fl :: "(real \<Rightarrow> real) \<Rightarrow> real \<Rightarrow> Battleship \<Rightarrow> Battleship" where
  "Battleship_updateNavigation_fl rnd deltaTime b =
     (case bs_targetPosition b of
        None \<Rightarrow>
          b\<lparr>bs_velocity := \<lparr>x = rnd (x (bs_velocity b) * rnd (95 / 100)),
                            y = rnd (y (bs_velocity b) * rnd (95 / 100)),
                            z = rnd (z (bs_velocity b) * rnd (95 / 100))\<rparr>\<rparr>
      | Some targetPosition \<Rightarrow>
          (let direction = \<lparr>x = rnd (x targetPosition - x (bs_position b)),
                           y = rnd (y targetPosition - y (bs_position b)),
                           z = rnd (z targetPosition - z (bs_position b))\<rparr>;
               distance = magnitude_fl rnd direction
           in if distance < 100 then b\<lparr>bs_targetPosition := None\<rparr>
              else
                (let normalized = Utils_normalize_fl rnd direction;
                     acceleration = rnd (bs_maxSpeed b * rnd (3 / 10));
                     v1 = \<lparr>x = rnd (x (bs_velocity b)
                                     + rnd (rnd (x normalized * acceleration) * deltaTime)),
                            y = rnd (y (bs_velocity b)
                                     + rnd (rnd (y normalized * acceleration) * deltaTime)),
                            z = rnd (z (bs_velocity b)
                                     + rnd (rnd (z normalized * acceleration) * deltaTime))\<rparr>;
                     currentVel = magnitude_fl rnd v1;
                     v2 = (if currentVel > bs_maxSpeed b then
                             (let ratio = rnd (bs_maxSpeed b / currentVel)
                              in \<lparr>x = rnd (x v1 * ratio), y = rnd (y v1 * ratio),
                                  z = rnd (z v1 * ratio)\<rparr>)
                           else v1)
                 in b\<lparr>bs_velocity := v2,
                      bs_position := \<lparr>x = rnd (x (bs_position b) + rnd (x v2 * deltaTime)),
                                      y = rnd (y (bs_position b) + rnd (y v2 * deltaTime)),
                                      z = rnd (z (bs_position b) + rnd (z v2 * deltaTime))\<rparr>\<rparr>)))"

definition Battleship_rechargeCapacitor_fl :: "(real \<Rightarrow> real) \<Rightarrow> Battleship \<Rightarrow> Battleship" where
  "Battleship_rechargeCapacitor_fl rnd b =
     b\<lparr>bs_currentCapacitor :=
         min (bs_maxCapacitor b) (rnd (bs_currentCapacitor b + bs_capacitorRecharge b))\<rparr>"

definition Smartbomb_update_fl :: "(real \<Rightarrow> real) \<Rightarrow> Smartbomb \<Rightarrow> Smartbomb" where
  "Smartbomb_update_fl rnd sb =
     (if sb_cooldownRemaining sb > 0 then
        (let sb1 = sb\<lparr>sb_cooldownRemaining := rnd (sb_cooldownRemaining sb - 1000)\<rparr>
         in if sb_cooldownRemaining sb1 \<le> 0 then sb1\<lparr>sb_isCycling := False\<rparr> else sb1)
      else sb)"

definition Battleship_update_fl :: "(real \<Rightarrow> real) \<Rightarrow> real \<Rightarrow> Battleship \<Rightarrow> Battleship" where
  "Battleship_update_fl rnd deltaTime b0 =
     (let b1 = Battleship_updatePropulsion_fl rnd deltaTime b0;
          b2 = Battleship_updateNavigation_fl rnd deltaTime b1;
          b3 = Battleship_rechargeCapacitor_fl rnd b2;
          b4 = b3\<lparr>bs_smartbomb := Smartbomb_update_fl rnd (bs_smartbomb b3)\<rparr>
      in b4\<lparr>bs_currentSpeed := magnitude_fl rnd (bs_velocity b4)\<rparr>)"

text \<open>
  Three roundings: none at all; and, for the unit roundoff of doubles, the rounding that
  always cuts a result by the whole relative error the model allows.
\<close>

definition round_exact :: "real \<Rightarrow> real" where
  "round_exact t = t"

definition unit_roundoff :: real where
  "unit_roundoff = 1 / 2 ^ 53"

definition round_down :: "real \<Rightarrow> real" where
  "round_down t = t * (1 - unit_roundoff)"

section \<open>Scenario states\<close>

text \<open>Concrete states and inputs on which the properties below are exercised.\<close>

definition Battleship_depleted :: Battleship where
  "Battleship_depleted = Battleship_new\<lparr>bs_currentShield := 0, bs_currentArmor := 0\<rparr>"

definition Battleship_after_activation :: Battleship where
  "Battleship_after_activation = fst (snd (Smartbomb_activate [] Battleship_new))"

definition Battleship_low_capacitor :: Battleship where
  "Battleship_low_capacitor = Battleship_new\<lparr>bs_currentCapacitor := 500\<rparr>"

text \<open>A battleship moving at 150 m/s under afterburner, and a missile 3040 m away from it.\<close>

definition Battleship_cruising :: Battleship where
  "Battleship_cruising =
     Battleship_new\<lparr>bs_velocity := \<lparr>x = 0, y = 150, z = 0\<rparr>, bs_currentSpeed := 150,
       bs_maxSpeed := 375 / 2, bs_signatureRadius := 440, bs_afterburnerActive := True\<rparr>"

definition missile_inbound :: Missile where
  "missile_inbound = Missile_new \<lparr>x = 3040, y = 0, z = 0\<rparr> PlayerTarget 0"

definition missile_impacted :: Missile where
  "missile_impacted =
     missile_inbound\<lparr>ms_position := \<lparr>x = 40, y = 0, z = 0\<rparr>, ms_flightTime := 1,
       ms_hasImpacted := True, ms_alive := False\<rparr>"

text \<open>
  A fresh battleship with the afterburner switched on and a destination 1000 m away; and the
  same ship three ticks later, after the pilot has switched the afterburner off and cancelled
  the destination (the Escape key sets \<open>targetPosition\<close> to null).
\<close>

definition Battleship_afterburner_run :: Battleship where
  "Battleship_afterburner_run =
     Battleship_navigateTo \<lparr>x = 1000, y = 0, z = 0\<rparr> ''approach''
       (snd (Battleship_toggleAfterburner Battleship_new))"

definition Battleship_coasting :: Battleship where
  "Battleship_coasting =
     (snd (Battleship_toggleAfterburner ((Battleship_update 1 ^^ 3) Battleship_afterburner_run)))
       \<lparr>bs_targetPosition := None\<rparr>"

text \<open>The coasting ship given a destination 62.5 m ahead of it.\<close>

definition Battleship_arriving :: Battleship where
  "Battleship_arriving =
     Battleship_navigateTo \<lparr>x = 400, y = 0, z = 0\<rparr> ''approach'' Battleship_coasting"

text \<open>The coasting ship given a destination 662.5 m ahead of it.\<close>

definition Battleship_resuming :: Battleship where
  "Battleship_resuming =
     Battleship_navigateTo \<lparr>x = 1000, y = 0, z = 0\<rparr> ''approach'' Battleship_coasting"

text \<open>
  The MWD cycle \<open>n\<close> ticks after its activation: either switched off with no time left, or
  running with \<open>10000 - 1000 * n\<close> ms left.
\<close>

definition mwd_running :: "nat \<Rightarrow> Battleship \<Rightarrow> bool" where
  "mwd_running n b =
     ((\<not> bs_mwdActive b \<and> bs_mwdCycleRemaining b = 0)
      \<or> (bs_mwdActive b \<and> bs_mwdCycleRemaining b = 10000 - 1000 * real n \<and> n < 10))"

text \<open>
  An enemy whose behaviour timer and missile timer both elapse on the next tick, a random
  source whose every draw is 0.9, and two schedulers holding that enemy: one that tracks no
  missile yet, one that tracks a missile in flight and a missile about to time out.
\<close>

definition enemy_cruiser :: EnemyShip where
  "enemy_cruiser =
     \<lparr>en_id = 0, en_target = PlayerTarget, en_position = \<lparr>x = 50000, y = 0, z = 0\<rparr>,
      en_shipType = Some ''Cruiser'', en_velocity = \<lparr>x = 0, y = 0, z = 0\<rparr>, en_currentSpeed = 0,
      en_maxSpeed = 300, en_signatureRadius = 125,
      en_targetPosition = Some \<lparr>x = 80000, y = 0, z = 0\<rparr>,
      en_behaviorChangeTimer = 1, en_behaviorChangeInterval = 7,
      en_missileTimer = 1, en_missileLaunchInterval = 6, en_volleySize = 3,
      en_launchedMissiles = []\<rparr>"

definition draws_constant :: rand where
  "draws_constant n = 9 / 10"

definition manager_first_volley :: SimulationManager where
  "manager_first_volley = SimulationManager_new Battleship_new [enemy_cruiser] 0"

definition missile_cruising :: Missile where
  "missile_cruising = Missile_new \<lparr>x = 10000, y = 0, z = 0\<rparr> PlayerTarget 0"

definition missile_expiring :: Missile where
  "missile_expiring =
     (Missile_new \<lparr>x = 90000, y = 0, z = 0\<rparr> PlayerTarget 0)\<lparr>ms_flightTime := 19\<rparr>"

definition manager_tracking :: SimulationManager where
  "manager_tracking =
     SimulationManager_addMissiles [missile_cruising, missile_expiring]
       (SimulationManager_new Battleship_new [enemy_cruiser] 0)"

section \<open>Vectors along one axis\<close>

lemma magnitude_axis [simp]: "magnitude \<lparr>x = a, y = 0, z = 0\<rparr> = \<bar>a\<bar>"
  by (simp add: magnitude_def)

lemma Utils_normalize_axis [simp]:
  "Utils_normalize \<lparr>x = a, y = 0, z = 0\<rparr> = \<lparr>x = sgn a, y = 0, z = 0\<rparr>"
  by (simp add: Utils_normalize_def Let_def sgn_real_def)

lemma Utils_distance3D_axis [simp]:
  "Utils_distance3D \<lparr>x = a, y = 0, z = 0\<rparr> \<lparr>x = b, y = 0, z = 0\<rparr> = \<bar>b - a\<bar>"
  by (simp add: Utils_distance3D_def Let_def)

lemma magnitude_scale:
  "magnitude \<lparr>x = a * r, y = b * r, z = c * r\<rparr> = \<bar>r\<bar> * magnitude \<lparr>x = a, y = b, z = c\<rparr>"
proof -
  have "a * r * (a * r) + b * r * (b * r) + c * r * (c * r) = (r * r) * (a * a + b * b + c * c)"
    by (simp add: algebra_simps)
  then show ?thesis
    by (simp add: magnitude_def real_sqrt_mult)
qed

lemma magnitude_eta: "magnitude \<lparr>x = x v, y = y v, z = z v\<rparr> = magnitude v"
  by (simp add: magnitude_def)

lemma distance3D_magnitude:
  "Utils_distance3D p q = magnitude \<lparr>x = x q - x p, y = y q - y p, z = z q - z p\<rparr>"
  by (simp add: Utils_distance3D_def magnitude_def Let_def)

section \<open>DamageModel\<close>

text \<open>
  C5. For non-negative inputs with positive explosion radius and explosion velocity the damage
  is \<open>baseDamage * min(1, targetSignatureRadius / explosionRadius) *
  sqrt(targetVelocity / explosionVelocity)\<close>; \<open>damage(500, 400, 0, 125, 150) = 0\<close>;
  \<open>damage(500, 125, 150, 125, 150) = 500\<close>; and the damage is not clamped: a target at least as
  large as the explosion radius and faster than the explosion velocity takes more than
  \<open>baseDamage\<close>.
\<close>

theorem calculateMissileDamage_formula:
  "(\<forall>baseDamage sig v er ev.
      0 \<le> baseDamage \<and> 0 \<le> sig \<and> 0 \<le> v \<and> 0 < er \<and> 0 < ev \<longrightarrow>
      Utils_calculateMissileDamage baseDamage sig v er ev
        = baseDamage * min 1 (sig / er) * sqrt (v / ev))
   \<and> Utils_calculateMissileDamage 500 400 0 125 150 = 0
   \<and> Utils_calculateMissileDamage 500 125 150 125 150 = 500
   \<and> (\<forall>baseDamage sig v er ev.
      0 < baseDamage \<and> 0 < er \<and> er \<le> sig \<and> 0 < ev \<and> ev < v \<longrightarrow>
      baseDamage < Utils_calculateMissileDamage baseDamage sig v er ev)"
proof (intro conjI allI impI)
  fix baseDamage sig v er ev :: real
  assume "0 \<le> baseDamage \<and> 0 \<le> sig \<and> 0 \<le> v \<and> 0 < er \<and> 0 < ev"
  then have "0 \<le> v / ev" by simp
  then show "Utils_calculateMissileDamage baseDamage sig v er ev
        = baseDamage * min 1 (sig / er) * sqrt (v / ev)"
    by (simp add: Utils_calculateMissileDamage_def powr_half_sqrt)
next
  show "Utils_calculateMissileDamage 500 400 0 125 150 = 0"
    by (simp add: Utils_calculateMissileDamage_def)
next
  show "Utils_calculateMissileDamage 500 125 150 125 150 = 500"
    by (simp add: Utils_calculateMissileDamage_def)
next
  fix baseDamage sig v er ev :: real
  assume h: "0 < baseDamage \<and> 0 < er \<and> er \<le> sig \<and> 0 < ev \<and> ev < v"
  then have q: "1 < v / ev" by simp
  then have "0 \<le> v / ev" by simp
  then have p: "(v / ev) powr (1 / 2) = sqrt (v / ev)" by (simp add: powr_half_sqrt)
  from q have s: "1 < sqrt (v / ev)" by simp
  from h have m: "min 1 (sig / er) = 1" by simp
  from h s have "baseDamage * 1 < baseDamage * sqrt (v / ev)"
    by (intro mult_strict_left_mono) auto
  then show "baseDamage < Utils_calculateMissileDamage baseDamage sig v er ev"
    using m p by (simp add: Utils_calculateMissileDamage_def)
qed

text \<open>C5, at a target four times as fast as the explosion velocity: twice the base damage.\<close>

theorem calculateMissileDamage_formula_witness:
  "Utils_calculateMissileDamage 500 500 600 125 150 = 1000
   \<and> 500 < Utils_calculateMissileDamage 500 500 600 125 150"
proof -
  have a: "Utils_calculateMissileDamage 500 500 600 125 150
             = 500 * min 1 (500 / 125) * sqrt (600 / 150)"
    using calculateMissileDamage_formula by simp
  have b: "500 < Utils_calculateMissileDamage 500 500 600 125 150"
    using calculateMissileDamage_formula by simp
  have "sqrt (600 / 150) = 2" using real_sqrt_four by simp
  with a b show ?thesis by simp
qed

section \<open>The battleship's tank\<close>

text \<open>
  C10. With shield and armor both at 0, \<open>takeDamage\<close> leaves the battleship as it is, whatever
  the damage.
\<close>

theorem takeDamage_depleted_unchanged:
  "bs_currentShield b = 0 \<and> bs_currentArmor b = 0 \<longrightarrow> Battleship_takeDamage damage b = b"
  by (simp add: Battleship_takeDamage_def)

text \<open>C10, on a battleship of the constructor with its tank emptied.\<close>

theorem takeDamage_depleted_unchanged_witness:
  "bs_currentShield Battleship_depleted = 0 \<and> bs_currentArmor Battleship_depleted = 0
   \<and> Battleship_takeDamage 750 Battleship_depleted = Battleship_depleted"
  using takeDamage_depleted_unchanged[of Battleship_depleted 750]
  by (simp add: Battleship_depleted_def Battleship_new_def)

text \<open>
  The parts of the tank that do stay in range: a non-negative damage keeps the shield in
  \<open>[0, maxShield]\<close> and never raises the armor, and a tick keeps the capacitor in
  \<open>[0, maxCapacitor]\<close> when the module costs and the recharge are non-negative.
\<close>

lemma takeDamage_shield_range:
  "0 \<le> damage \<Longrightarrow> 0 \<le> bs_currentShield b \<Longrightarrow> bs_currentShield b \<le> bs_maxShield b \<Longrightarrow>
   0 \<le> bs_currentShield (Battleship_takeDamage damage b)
   \<and> bs_currentShield (Battleship_takeDamage damage b) \<le> bs_maxShield (Battleship_takeDamage damage b)"
  by (simp add: Battleship_takeDamage_def Let_def)

lemma takeDamage_armor_upper:
  "0 \<le> damage \<Longrightarrow> bs_currentArmor (Battleship_takeDamage damage b) \<le> bs_currentArmor b"
  by (simp add: Battleship_takeDamage_def Let_def)

lemma takeDamage_armor_floor_direct:
  "bs_currentShield b \<le> 0 \<Longrightarrow> 0 \<le> bs_currentArmor b \<Longrightarrow>
   0 \<le> bs_currentArmor (Battleship_takeDamage damage b)"
  by (simp add: Battleship_takeDamage_def Let_def)

lemma updatePropulsion_capacitor:
  "0 \<le> bs_afterburnerCapCost b \<Longrightarrow> 0 \<le> bs_mwdCapCost b \<Longrightarrow> 0 \<le> bs_currentCapacitor b \<Longrightarrow>
   0 \<le> bs_currentCapacitor (Battleship_updatePropulsion dt b)
   \<and> bs_currentCapacitor (Battleship_updatePropulsion dt b) \<le> bs_currentCapacitor b"
  by (simp add: Battleship_updatePropulsion_def Let_def)

lemma update_capacitor_fields:
  "bs_currentCapacitor (Battleship_update dt b)
     = min (bs_maxCapacitor b)
           (bs_currentCapacitor (Battleship_updatePropulsion dt b) + bs_capacitorRecharge b)"
  "bs_maxCapacitor (Battleship_update dt b) = bs_maxCapacitor b"
proof -
  have p: "bs_maxCapacitor (Battleship_updatePropulsion dt b) = bs_maxCapacitor b"
    "bs_capacitorRecharge (Battleship_updatePropulsion dt b) = bs_capacitorRecharge b"
    by (simp_all add: Battleship_updatePropulsion_def Let_def)
  have n: "\<And>c. bs_maxCapacitor (Battleship_updateNavigation dt c) = bs_maxCapacitor c"
    "\<And>c. bs_capacitorRecharge (Battleship_updateNavigation dt c) = bs_capacitorRecharge c"
    "\<And>c. bs_currentCapacitor (Battleship_updateNavigation dt c) = bs_currentCapacitor c"
    by (simp_all add: Battleship_updateNavigation_def Let_def split: option.splits)
  show "bs_currentCapacitor (Battleship_update dt b)
     = min (bs_maxCapacitor b)
           (bs_currentCapacitor (Battleship_updatePropulsion dt b) + bs_capacitorRecharge b)"
    by (simp add: Battleship_update_def Battleship_rechargeCapacitor_def Let_def p n)
  show "bs_maxCapacitor (Battleship_update dt b) = bs_maxCapacitor b"
    by (simp add: Battleship_update_def Battleship_rechargeCapacitor_def Let_def p n)
qed

lemma update_capacitor_range:
  assumes "0 \<le> bs_afterburnerCapCost b" "0 \<le> bs_mwdCapCost b" "0 \<le> bs_capacitorRecharge b"
    "0 \<le> bs_currentCapacitor b" "bs_currentCapacitor b \<le> bs_maxCapacitor b"
  shows "0 \<le> bs_currentCapacitor (Battleship_update dt b)
   \<and> bs_currentCapacitor (Battleship_update dt b) \<le> bs_maxCapacitor (Battleship_update dt b)"
  using updatePropulsion_capacitor[OF assms(1,2,4), of dt] assms(3,4,5)
  by (simp add: update_capacitor_fields)

text \<open>
  C2. The claim has the armor floored at 0 when the damage exceeds the remaining shield. On a
  fresh battleship (shield 10000, armor 8000) a hit of 20000 leaves the shield at 0 and the armor
  at -2000: the overflow branch adds the negative remainder and does not floor the armor, as
  the branch for an empty shield does.
\<close>

theorem takeDamage_overflow_armor_negative:
  "bs_currentShield (Battleship_takeDamage 20000 Battleship_new) = 0
   \<and> bs_currentArmor (Battleship_takeDamage 20000 Battleship_new) = - 2000
   \<and> \<not> 0 \<le> bs_currentArmor (Battleship_takeDamage 20000 Battleship_new)"
  by (simp add: Battleship_takeDamage_def Battleship_new_def)

section \<open>Smartbomb activation\<close>

text \<open>
  C4. \<open>activate\<close> while cycling returns \<open>{success: false, reason: 'cycling'}\<close>; \<open>activate\<close> with
  the capacitor below the cost (and not cycling, which is checked first) returns
  \<open>{success: false, reason: 'no_cap'}\<close>; every failure leaves the owner, with its capacitor
  and its smartbomb's cooldown, cycling flag and activation count, and every missile unchanged;
  and a call right after a successful one fails with \<open>'cycling'\<close>.
\<close>

theorem Smartbomb_activate_failure_atomic:
  "(sb_isCycling (bs_smartbomb b) \<longrightarrow>
      Smartbomb_activate missiles b = (Failure ''cycling'', b, missiles))
   \<and> (\<not> sb_isCycling (bs_smartbomb b)
        \<and> bs_currentCapacitor b < sb_capacitorCost (bs_smartbomb b) \<longrightarrow>
      Smartbomb_activate missiles b = (Failure ''no_cap'', b, missiles))
   \<and> (\<forall>reason b' missiles'.
        Smartbomb_activate missiles b = (Failure reason, b', missiles') \<longrightarrow>
        b' = b \<and> missiles' = missiles \<and> (reason = ''cycling'' \<or> reason = ''no_cap''))
   \<and> (\<forall>d c b' missiles'.
        Smartbomb_activate missiles b = (Success d c, b', missiles') \<longrightarrow>
        (\<forall>again. Smartbomb_activate again b' = (Failure ''cycling'', b', again)))"
  by (auto simp: Smartbomb_activate_def Let_def split: prod.splits if_splits)

text \<open>
  C4, on the battleship of the constructor: the first activation succeeds, a second one right
  after it and one a tick later fail with \<open>'cycling'\<close>, and an activation with 500 capacitor
  fails with \<open>'no_cap'\<close>.
\<close>

theorem Smartbomb_activate_failure_atomic_witness:
  "Smartbomb_activate [] Battleship_new = (Success 0 1, Battleship_after_activation, [])
   \<and> Smartbomb_activate [missile_inbound] Battleship_after_activation
       = (Failure ''cycling'', Battleship_after_activation, [missile_inbound])
   \<and> Smartbomb_activate [missile_inbound] (Battleship_update 1 Battleship_after_activation)
       = (Failure ''cycling'', Battleship_update 1 Battleship_after_activation, [missile_inbound])
   \<and> Smartbomb_activate [missile_inbound] Battleship_low_capacitor
       = (Failure ''no_cap'', Battleship_low_capacitor, [missile_inbound])"
proof -
  have s: "Smartbomb_activate [] Battleship_new = (Success 0 1, Battleship_after_activation, [])"
    by (simp add: Battleship_after_activation_def Smartbomb_activate_def Smartbomb_applyDamage_def
        Battleship_new_def Smartbomb_new_def Let_def)
  have c1: "sb_isCycling (bs_smartbomb Battleship_after_activation)"
    by (simp add: Battleship_after_activation_def Smartbomb_activate_def Smartbomb_applyDamage_def
        Battleship_new_def Smartbomb_new_def Let_def)
  have c2: "sb_isCycling (bs_smartbomb (Battleship_update 1 Battleship_after_activation))"
    by (simp add: Battleship_after_activation_def Smartbomb_activate_def Smartbomb_applyDamage_def
        Battleship_update_def Battleship_updatePropulsion_def Battleship_updateNavigation_def
        Battleship_rechargeCapacitor_def Smartbomb_update_def
        Battleship_new_def Smartbomb_new_def Let_def)
  have n: "\<not> sb_isCycling (bs_smartbomb Battleship_low_capacitor)
           \<and> bs_currentCapacitor Battleship_low_capacitor
               < sb_capacitorCost (bs_smartbomb Battleship_low_capacitor)"
    by (simp add: Battleship_low_capacitor_def Battleship_new_def Smartbomb_new_def)
  have r1: "Smartbomb_activate [missile_inbound] Battleship_after_activation
       = (Failure ''cycling'', Battleship_after_activation, [missile_inbound])"
    using Smartbomb_activate_failure_atomic[of Battleship_new "[]"] s
    by blast
  have r2: "Smartbomb_activate [missile_inbound] (Battleship_update 1 Battleship_after_activation)
       = (Failure ''cycling'', Battleship_update 1 Battleship_after_activation, [missile_inbound])"
    using Smartbomb_activate_failure_atomic
            [of "Battleship_update 1 Battleship_after_activation" "[missile_inbound]"] c2
    by blast
  have r3: "Smartbomb_activate [missile_inbound] Battleship_low_capacitor
       = (Failure ''no_cap'', Battleship_low_capacitor, [missile_inbound])"
    using Smartbomb_activate_failure_atomic[of Battleship_low_capacitor "[missile_inbound]"] n
    by blast
  from s r1 r2 r3 show ?thesis by (intro conjI)
qed

section \<open>Missile destruction and impact\<close>

lemma Missile_update_dead: "\<not> ms_alive m \<Longrightarrow> Missile_update dt m bs = Inr (m, bs)"
  by (simp add: Missile_update_def)

lemma Missile_impact_guard:
  "ms_hasImpacted m \<or> \<not> ms_alive m \<Longrightarrow> Missile_impact m bs = Inr (m, bs)"
  by (simp add: Missile_impact_def)

lemma Missile_impact_result:
  "Missile_impact m bs = Inr (m', bs') \<Longrightarrow>
     (m' = m \<and> bs' = bs \<and> (ms_hasImpacted m \<or> \<not> ms_alive m))
     \<or> (\<not> ms_hasImpacted m \<and> ms_alive m \<and> ms_hasImpacted m' \<and> \<not> ms_alive m')"
  by (auto simp: Missile_impact_def Missile_destroy_def Let_def split: if_splits target_ref.splits)

lemma Missile_update_result:
  "Missile_update dt m bs = Inr (m', bs') \<Longrightarrow>
     bs' = bs \<and> (ms_hasImpacted m' = ms_hasImpacted m)
     \<or> (\<not> ms_hasImpacted m \<and> ms_alive m \<and> ms_hasImpacted m' \<and> \<not> ms_alive m')"
  unfolding Missile_update_def Let_def
  by (auto split: if_splits dest!: Missile_impact_result simp: Missile_destroy_def)

text \<open>\<open>update\<close> calls \<open>impact\<close> only behind its own check of the target: it never throws.\<close>

lemma Missile_update_total: "\<exists>r. Missile_update dt m bs = Inr r"
  unfolding Missile_update_def Let_def Missile_impact_def
  by (auto split: target_ref.splits)

text \<open>
  C8. Once \<open>alive\<close> is false, \<open>update\<close>, \<open>impact\<close>, \<open>takeDamage\<close> and \<open>destroy\<close> leave the
  missile (and the target) unchanged and \<open>takeDamage\<close> returns false. A missile that has
  impacted never touches its target again: \<open>impact\<close> returns at its guard and \<open>update\<close> leaves
  the target as it is. And an \<open>update\<close> in which the impact fires (the target changes, or
  \<open>hasImpacted\<close> becomes true) leaves the missile not alive, so that every later \<open>update\<close> or
  \<open>impact\<close>, wherever the target is, changes nothing: the damage is applied at most once.
\<close>

theorem Missile_dead_inert:
  "(\<not> ms_alive m \<longrightarrow>
      Missile_update dt m bs = Inr (m, bs) \<and> Missile_impact m bs = Inr (m, bs)
      \<and> Missile_takeDamage damage m = (False, m) \<and> Missile_destroy m = m)
   \<and> (ms_hasImpacted m \<longrightarrow>
        Missile_impact m bs = Inr (m, bs)
        \<and> (\<forall>m' bs'. Missile_update dt m bs = Inr (m', bs') \<longrightarrow> bs' = bs \<and> ms_hasImpacted m'))
   \<and> (\<forall>m' bs'. Missile_update dt m bs = Inr (m', bs')
         \<and> (bs' \<noteq> bs \<or> (ms_hasImpacted m' \<and> \<not> ms_hasImpacted m)) \<longrightarrow>
        \<not> ms_alive m' \<and> ms_hasImpacted m'
        \<and> (\<forall>dt2 bs2. Missile_update dt2 m' bs2 = Inr (m', bs2)
                     \<and> Missile_impact m' bs2 = Inr (m', bs2)))"
proof (intro conjI impI allI)
  assume "\<not> ms_alive m"
  then show "Missile_update dt m bs = Inr (m, bs)" "Missile_impact m bs = Inr (m, bs)"
    "Missile_takeDamage damage m = (False, m)" "Missile_destroy m = m"
    by (simp_all add: Missile_update_dead Missile_impact_guard Missile_takeDamage_def
        Missile_destroy_def)
next
  assume "ms_hasImpacted m"
  then show "Missile_impact m bs = Inr (m, bs)" by (simp add: Missile_impact_guard)
next
  fix m' bs'
  assume "ms_hasImpacted m" "Missile_update dt m bs = Inr (m', bs')"
  then show "bs' = bs" "ms_hasImpacted m'" using Missile_update_result by blast+
next
  fix m' bs'
  assume h: "Missile_update dt m bs = Inr (m', bs')
             \<and> (bs' \<noteq> bs \<or> (ms_hasImpacted m' \<and> \<not> ms_hasImpacted m))"
  then have d: "\<not> ms_alive m' \<and> ms_hasImpacted m'" using Missile_update_result by blast
  then show "\<not> ms_alive m'" "ms_hasImpacted m'" by simp_all
  fix dt2 bs2
  from d show "Missile_update dt2 m' bs2 = Inr (m', bs2)" "Missile_impact m' bs2 = Inr (m', bs2)"
    by (simp_all add: Missile_update_dead Missile_impact_guard)
qed

lemma missile_inbound_hits:
  "Missile_update 1 missile_inbound Battleship_cruising
     = Inr (missile_impacted, Battleship_cruising\<lparr>bs_currentShield := 9500\<rparr>)"
  by (simp add: Missile_update_def Missile_impact_def Missile_destroy_def missile_inbound_def
      missile_impacted_def Missile_new_def Battleship_cruising_def Battleship_new_def
      Battleship_takeDamage_def Utils_calculateMissileDamage_def js_or_def Let_def)

text \<open>
  C8, on a missile that ends its tick 40 m from a battleship moving at 150 m/s: the impact
  takes 500 off the shield, and a second \<open>update\<close>, a direct \<open>impact\<close> and a smartbomb hit
  change nothing.
\<close>

theorem Missile_dead_inert_witness:
  "Missile_update 1 missile_inbound Battleship_cruising
     = Inr (missile_impacted, Battleship_cruising\<lparr>bs_currentShield := 9500\<rparr>)
   \<and> \<not> ms_alive missile_impacted \<and> ms_hasImpacted missile_impacted
   \<and> Missile_update 1 missile_impacted (Battleship_cruising\<lparr>bs_currentShield := 9500\<rparr>)
       = Inr (missile_impacted, Battleship_cruising\<lparr>bs_currentShield := 9500\<rparr>)
   \<and> Missile_impact missile_impacted (Battleship_cruising\<lparr>bs_currentShield := 9500\<rparr>)
       = Inr (missile_impacted, Battleship_cruising\<lparr>bs_currentShield := 9500\<rparr>)
   \<and> Missile_takeDamage 200 missile_impacted = (False, missile_impacted)"
proof -
  have ne: "Battleship_cruising\<lparr>bs_currentShield := 9500\<rparr> \<noteq> Battleship_cruising"
  proof
    assume "Battleship_cruising\<lparr>bs_currentShield := 9500\<rparr> = Battleship_cruising"
    then have "bs_currentShield (Battleship_cruising\<lparr>bs_currentShield := 9500\<rparr>)
                 = bs_currentShield Battleship_cruising"
      by simp
    then show False by (simp add: Battleship_cruising_def Battleship_new_def)
  qed
  have dead: "\<not> ms_alive missile_impacted" "ms_hasImpacted missile_impacted"
    by (simp_all add: missile_impacted_def)
  from Missile_dead_inert[of missile_inbound 1 Battleship_cruising] missile_inbound_hits ne
  have after: "\<forall>dt2 bs2. Missile_update dt2 missile_impacted bs2 = Inr (missile_impacted, bs2)
                      \<and> Missile_impact missile_impacted bs2 = Inr (missile_impacted, bs2)"
    by blast
  from Missile_dead_inert[of missile_impacted 1 Battleship_cruising 200] dead
  have td: "Missile_takeDamage 200 missile_impacted = (False, missile_impacted)" by blast
  from missile_inbound_hits dead after td show ?thesis by blast
qed

section \<open>The MWD cycle\<close>

lemma update_mwd_fields:
  "bs_mwdActive (Battleship_update dt b) = bs_mwdActive (Battleship_updatePropulsion dt b)"
  "bs_mwdCycleRemaining (Battleship_update dt b)
     = bs_mwdCycleRemaining (Battleship_updatePropulsion dt b)"
  by (simp_all add: Battleship_update_def Battleship_updateNavigation_def
      Battleship_rechargeCapacitor_def Let_def split: option.splits)

lemma mwd_running_step: "mwd_running n b \<Longrightarrow> mwd_running (Suc n) (Battleship_update 1 b)"
  unfolding mwd_running_def update_mwd_fields
  by (auto simp: Battleship_updatePropulsion_def Let_def)

lemma mwd_running_funpow: "mwd_running 0 b \<Longrightarrow> mwd_running n ((Battleship_update 1 ^^ n) b)"
  by (induction n) (auto intro: mwd_running_step)

lemma mwd_nine_ticks:
  "bs_mwdActive ((Battleship_update 1 ^^ 9) (snd (Battleship_activateMWD Battleship_new)))
   \<and> bs_mwdCycleRemaining ((Battleship_update 1 ^^ 9) (snd (Battleship_activateMWD Battleship_new)))
       = 1000
   \<and> bs_currentCapacitor ((Battleship_update 1 ^^ 9) (snd (Battleship_activateMWD Battleship_new)))
       = 4100"
  by (simp add: eval_nat_numeral Battleship_update_def Battleship_updatePropulsion_def
      Battleship_updateNavigation_def Battleship_rechargeCapacitor_def Battleship_activateMWD_def
      Battleship_new_def Smartbomb_update_def Smartbomb_new_def Let_def)

text \<open>
  C6. \<open>activateMWD\<close> on an active MWD returns false and changes nothing; on an inactive one it
  returns true, switches the MWD on and loads \<open>mwdCycleRemaining\<close> with the cycle time, 10000 ms
  on the battleship of the constructor; ten ticks of one second after an activation the MWD
  is off and \<open>mwdCycleRemaining\<close> is 0; and on the battleship of the constructor (capacitor
  5000, enough for every tick) the MWD is still running after nine ticks, with 1000 ms left.
\<close>

theorem activateMWD_cycle:
  "(bs_mwdActive b \<longrightarrow> Battleship_activateMWD b = (False, b))
   \<and> (\<not> bs_mwdActive b \<longrightarrow>
        Battleship_activateMWD b
          = (True, b\<lparr>bs_mwdActive := True, bs_mwdCycleRemaining := bs_mwdCycleTime b\<rparr>))
   \<and> bs_mwdCycleTime Battleship_new = 10000
   \<and> (\<not> bs_mwdActive b \<and> bs_mwdCycleTime b = 10000 \<longrightarrow>
        \<not> bs_mwdActive ((Battleship_update 1 ^^ 10) (snd (Battleship_activateMWD b)))
        \<and> bs_mwdCycleRemaining ((Battleship_update 1 ^^ 10) (snd (Battleship_activateMWD b))) = 0)
   \<and> bs_currentCapacitor Battleship_new = 5000
   \<and> bs_mwdActive ((Battleship_update 1 ^^ 9) (snd (Battleship_activateMWD Battleship_new)))
   \<and> bs_mwdCycleRemaining ((Battleship_update 1 ^^ 9) (snd (Battleship_activateMWD Battleship_new)))
       = 1000"
proof (intro conjI impI)
  show "bs_mwdActive b \<Longrightarrow> Battleship_activateMWD b = (False, b)"
    by (simp add: Battleship_activateMWD_def)
  show "\<not> bs_mwdActive b \<Longrightarrow>
        Battleship_activateMWD b
          = (True, b\<lparr>bs_mwdActive := True, bs_mwdCycleRemaining := bs_mwdCycleTime b\<rparr>)"
    by (simp add: Battleship_activateMWD_def)
  show "bs_mwdCycleTime Battleship_new = 10000" "bs_currentCapacitor Battleship_new = 5000"
    by (simp_all add: Battleship_new_def)
  show "bs_mwdActive ((Battleship_update 1 ^^ 9) (snd (Battleship_activateMWD Battleship_new)))"
    "bs_mwdCycleRemaining ((Battleship_update 1 ^^ 9) (snd (Battleship_activateMWD Battleship_new)))
       = 1000"
    using mwd_nine_ticks by simp_all
next
  assume h: "\<not> bs_mwdActive b \<and> bs_mwdCycleTime b = 10000"
  then have "mwd_running 0 (snd (Battleship_activateMWD b))"
    by (simp add: mwd_running_def Battleship_activateMWD_def)
  then have r: "mwd_running 10 ((Battleship_update 1 ^^ 10) (snd (Battleship_activateMWD b)))"
    by (rule mwd_running_funpow)
  from r show "\<not> bs_mwdActive ((Battleship_update 1 ^^ 10) (snd (Battleship_activateMWD b)))"
    by (simp add: mwd_running_def)
  from r show "bs_mwdCycleRemaining ((Battleship_update 1 ^^ 10) (snd (Battleship_activateMWD b))) = 0"
    by (simp add: mwd_running_def)
qed

text \<open>C6, on the battleship of the constructor.\<close>

theorem activateMWD_cycle_witness:
  "Battleship_activateMWD Battleship_new
     = (True, Battleship_new\<lparr>bs_mwdActive := True, bs_mwdCycleRemaining := 10000\<rparr>)
   \<and> Battleship_activateMWD (snd (Battleship_activateMWD Battleship_new))
     = (False, snd (Battleship_activateMWD Battleship_new))
   \<and> \<not> bs_mwdActive ((Battleship_update 1 ^^ 10) (snd (Battleship_activateMWD Battleship_new)))
   \<and> bs_mwdCycleRemaining ((Battleship_update 1 ^^ 10) (snd (Battleship_activateMWD Battleship_new)))
       = 0"
proof -
  have a: "\<not> bs_mwdActive Battleship_new" "bs_mwdCycleTime Battleship_new = 10000"
    by (simp_all add: Battleship_new_def)
  have b: "bs_mwdActive (snd (Battleship_activateMWD Battleship_new))"
    by (simp add: Battleship_activateMWD_def Battleship_new_def)
  have 1: "Battleship_activateMWD Battleship_new
     = (True, Battleship_new\<lparr>bs_mwdActive := True,
                              bs_mwdCycleRemaining := bs_mwdCycleTime Battleship_new\<rparr>)"
    using activateMWD_cycle[of Battleship_new] a(1) by blast
  have 2: "Battleship_activateMWD (snd (Battleship_activateMWD Battleship_new))
     = (False, snd (Battleship_activateMWD Battleship_new))"
    using activateMWD_cycle[of "snd (Battleship_activateMWD Battleship_new)"] b by blast
  have 3: "\<not> bs_mwdActive ((Battleship_update 1 ^^ 10) (snd (Battleship_activateMWD Battleship_new)))
        \<and> bs_mwdCycleRemaining ((Battleship_update 1 ^^ 10) (snd (Battleship_activateMWD Battleship_new)))
            = 0"
    using activateMWD_cycle[of Battleship_new] a by blast
  from 1 have 4: "Battleship_activateMWD Battleship_new
     = (True, Battleship_new\<lparr>bs_mwdActive := True, bs_mwdCycleRemaining := 10000\<rparr>)"
    by (simp only: a(2))
  from 4 2 3 show ?thesis by (intro conjI) blast+
qed

section \<open>The battleship's speed\<close>

lemma clamp_speed:
  assumes "0 \<le> limit"
  shows "magnitude (if magnitude v > limit then
                      (let ratio = limit / magnitude v
                       in \<lparr>x = x v * ratio, y = y v * ratio, z = z v * ratio\<rparr>)
                    else v) \<le> limit"
proof (cases "magnitude v > limit")
  case True
  with assms have pos: "0 < magnitude v" by simp
  have "magnitude \<lparr>x = x v * (limit / magnitude v), y = y v * (limit / magnitude v),
                   z = z v * (limit / magnitude v)\<rparr>
        = \<bar>limit / magnitude v\<bar> * magnitude v"
    by (simp only: magnitude_scale magnitude_eta)
  also have "\<dots> = limit" using assms pos by simp
  finally show ?thesis using True by (simp add: Let_def)
next
  case False
  then show ?thesis by simp
qed

lemma updatePropulsion_maxSpeed_nonneg:
  "0 \<le> bs_baseSpeed b \<Longrightarrow> 0 \<le> bs_afterburnerBoost b \<Longrightarrow> 0 \<le> bs_mwdBoost b \<Longrightarrow>
   0 \<le> bs_maxSpeed (Battleship_updatePropulsion dt b)"
  by (simp add: Battleship_updatePropulsion_def Let_def)

lemma updatePropulsion_nav_fields:
  "bs_targetPosition (Battleship_updatePropulsion dt b) = bs_targetPosition b"
  "bs_position (Battleship_updatePropulsion dt b) = bs_position b"
  "bs_velocity (Battleship_updatePropulsion dt b) = bs_velocity b"
  by (simp_all add: Battleship_updatePropulsion_def Let_def)

lemma update_velocity:
  "bs_velocity (Battleship_update dt b)
     = bs_velocity (Battleship_updateNavigation dt (Battleship_updatePropulsion dt b))"
  "bs_maxSpeed (Battleship_update dt b) = bs_maxSpeed (Battleship_updatePropulsion dt b)"
  "bs_currentSpeed (Battleship_update dt b) = magnitude (bs_velocity (Battleship_update dt b))"
  by (simp_all add: Battleship_update_def Battleship_rechargeCapacitor_def
      Battleship_updateNavigation_def Let_def split: option.splits)

lemma updateNavigation_pursuit_speed:
  assumes "0 \<le> bs_maxSpeed b" "bs_targetPosition b = Some p"
    "100 \<le> Utils_distance3D (bs_position b) p"
  shows "magnitude (bs_velocity (Battleship_updateNavigation dt b)) \<le> bs_maxSpeed b"
proof -
  define n where "n = Utils_normalize \<lparr>x = x p - x (bs_position b), y = y p - y (bs_position b),
                                       z = z p - z (bs_position b)\<rparr>"
  define v1 where "v1 = \<lparr>x = x (bs_velocity b) + x n * (bs_maxSpeed b * (3 / 10)) * dt,
                         y = y (bs_velocity b) + y n * (bs_maxSpeed b * (3 / 10)) * dt,
                         z = z (bs_velocity b) + z n * (bs_maxSpeed b * (3 / 10)) * dt\<rparr>"
  have "bs_velocity (Battleship_updateNavigation dt b) =
          (if magnitude v1 > bs_maxSpeed b then
             (let ratio = bs_maxSpeed b / magnitude v1
              in \<lparr>x = x v1 * ratio, y = y v1 * ratio, z = z v1 * ratio\<rparr>)
           else v1)"
    using assms(2,3)
    by (simp add: Battleship_updateNavigation_def distance3D_magnitude Let_def v1_def n_def)
  then show ?thesis
    using clamp_speed[OF assms(1), of v1] by simp
qed

lemma afterburner_run_tick1:
  "Battleship_update 1 Battleship_afterburner_run =
     Battleship_afterburner_run\<lparr>bs_maxSpeed := 375 / 2, bs_signatureRadius := 440,
       bs_velocity := \<lparr>x = 225 / 4, y = 0, z = 0\<rparr>, bs_position := \<lparr>x = 225 / 4, y = 0, z = 0\<rparr>,
       bs_currentSpeed := 225 / 4\<rparr>"
  by (simp add: Battleship_afterburner_run_def Battleship_update_def Battleship_updatePropulsion_def
      Battleship_updateNavigation_def Battleship_rechargeCapacitor_def
      Battleship_toggleAfterburner_def Battleship_navigateTo_def Battleship_new_def
      Smartbomb_update_def Smartbomb_new_def Let_def)

lemma afterburner_run_tick2:
  "Battleship_update 1 (Battleship_update 1 Battleship_afterburner_run) =
     Battleship_afterburner_run\<lparr>bs_maxSpeed := 375 / 2, bs_signatureRadius := 440,
       bs_velocity := \<lparr>x = 225 / 2, y = 0, z = 0\<rparr>, bs_position := \<lparr>x = 675 / 4, y = 0, z = 0\<rparr>,
       bs_currentSpeed := 225 / 2\<rparr>"
  unfolding afterburner_run_tick1
  by (simp add: Battleship_afterburner_run_def Battleship_update_def Battleship_updatePropulsion_def
      Battleship_updateNavigation_def Battleship_rechargeCapacitor_def
      Battleship_toggleAfterburner_def Battleship_navigateTo_def Battleship_new_def
      Smartbomb_update_def Smartbomb_new_def Let_def)

lemma afterburner_run_tick3:
  "Battleship_update 1 (Battleship_update 1 (Battleship_update 1 Battleship_afterburner_run)) =
     Battleship_afterburner_run\<lparr>bs_maxSpeed := 375 / 2, bs_signatureRadius := 440,
       bs_velocity := \<lparr>x = 675 / 4, y = 0, z = 0\<rparr>, bs_position := \<lparr>x = 675 / 2, y = 0, z = 0\<rparr>,
       bs_currentSpeed := 675 / 4\<rparr>"
  unfolding afterburner_run_tick2
  by (simp add: Battleship_afterburner_run_def Battleship_update_def Battleship_updatePropulsion_def
      Battleship_updateNavigation_def Battleship_rechargeCapacitor_def
      Battleship_toggleAfterburner_def Battleship_navigateTo_def Battleship_new_def
      Smartbomb_update_def Smartbomb_new_def Let_def)

lemma Battleship_coasting_eq:
  "Battleship_coasting =
     Battleship_new\<lparr>bs_navigationMode := Some ''approach'',
       bs_maxSpeed := 375 / 2, bs_signatureRadius := 440,
       bs_velocity := \<lparr>x = 675 / 4, y = 0, z = 0\<rparr>, bs_position := \<lparr>x = 675 / 2, y = 0, z = 0\<rparr>,
       bs_currentSpeed := 675 / 4\<rparr>"
  unfolding Battleship_coasting_def
  by (simp add: numeral_3_eq_3 afterburner_run_tick3)
     (simp add: Battleship_afterburner_run_def Battleship_toggleAfterburner_def
        Battleship_navigateTo_def Battleship_new_def Let_def)

text \<open>
  C3 as stated fails. A battleship that has reached 168.75 m/s under afterburner, with the
  afterburner then switched off and the destination cancelled, ends its next tick with
  \<open>maxSpeed\<close> recomputed to 125 and a speed of 160.3125: without a destination the velocity is
  only scaled by 0.95.
\<close>

theorem coasting_speed_exceeds_maxSpeed:
  "bs_maxSpeed (Battleship_update 1 Battleship_coasting) = 125
   \<and> magnitude (bs_velocity (Battleship_update 1 Battleship_coasting)) = 2565 / 16
   \<and> \<not> magnitude (bs_velocity (Battleship_update 1 Battleship_coasting))
         \<le> bs_maxSpeed (Battleship_update 1 Battleship_coasting)"
  unfolding Battleship_coasting_eq
  by (simp add: Battleship_update_def Battleship_updatePropulsion_def Battleship_updateNavigation_def
      Battleship_rechargeCapacitor_def Battleship_new_def Smartbomb_update_def Smartbomb_new_def
      Let_def)

text \<open>
  In exact arithmetic the clamp lands on \<open>maxSpeed\<close>: with a non-negative base speed and
  non-negative boost factors, a tick on which the battleship has a destination at least 100
  units away ends with a speed of at most the \<open>maxSpeed\<close> recomputed on that tick. A tick
  without a destination scales the velocity by 0.95, and a tick on arrival leaves it as it
  is. (The doubles of the program do not land on \<open>maxSpeed\<close>; the rounded tick follows.)
\<close>

lemma pursuit_speed_exact:
  "0 \<le> bs_baseSpeed b \<and> 0 \<le> bs_afterburnerBoost b \<and> 0 \<le> bs_mwdBoost b \<longrightarrow>
     bs_currentSpeed (Battleship_update dt b) = magnitude (bs_velocity (Battleship_update dt b))
     \<and> (\<forall>p. bs_targetPosition b = Some p \<and> 100 \<le> Utils_distance3D (bs_position b) p \<longrightarrow>
          magnitude (bs_velocity (Battleship_update dt b)) \<le> bs_maxSpeed (Battleship_update dt b))
     \<and> (bs_targetPosition b = None \<longrightarrow>
          magnitude (bs_velocity (Battleship_update dt b)) = (95 / 100) * magnitude (bs_velocity b))
     \<and> (\<forall>p. bs_targetPosition b = Some p \<and> Utils_distance3D (bs_position b) p < 100 \<longrightarrow>
          bs_velocity (Battleship_update dt b) = bs_velocity b)"
proof (intro impI conjI allI)
  show "bs_currentSpeed (Battleship_update dt b) = magnitude (bs_velocity (Battleship_update dt b))"
    by (rule update_velocity(3))
next
  fix p
  assume c: "0 \<le> bs_baseSpeed b \<and> 0 \<le> bs_afterburnerBoost b \<and> 0 \<le> bs_mwdBoost b"
    and t: "bs_targetPosition b = Some p \<and> 100 \<le> Utils_distance3D (bs_position b) p"
  from c have "0 \<le> bs_maxSpeed (Battleship_updatePropulsion dt b)"
    by (simp add: updatePropulsion_maxSpeed_nonneg)
  then show "magnitude (bs_velocity (Battleship_update dt b)) \<le> bs_maxSpeed (Battleship_update dt b)"
    unfolding update_velocity
    using t by (intro updateNavigation_pursuit_speed[where p = p])
               (simp_all add: updatePropulsion_nav_fields)
next
  assume "bs_targetPosition b = None"
  then have "bs_velocity (Battleship_update dt b) =
      \<lparr>x = x (bs_velocity b) * (95 / 100), y = y (bs_velocity b) * (95 / 100),
       z = z (bs_velocity b) * (95 / 100)\<rparr>"
    by (simp add: update_velocity Battleship_updateNavigation_def updatePropulsion_nav_fields)
  then have "magnitude (bs_velocity (Battleship_update dt b)) =
      magnitude \<lparr>x = x (bs_velocity b) * (95 / 100), y = y (bs_velocity b) * (95 / 100),
                 z = z (bs_velocity b) * (95 / 100)\<rparr>"
    by (simp only:)
  also have "\<dots> = \<bar>95 / 100\<bar> * magnitude \<lparr>x = x (bs_velocity b), y = y (bs_velocity b),
                                             z = z (bs_velocity b)\<rparr>"
    by (rule magnitude_scale)
  also have "\<dots> = (95 / 100) * magnitude (bs_velocity b)"
    unfolding magnitude_eta by simp
  finally show "magnitude (bs_velocity (Battleship_update dt b))
                  = (95 / 100) * magnitude (bs_velocity b)" .
next
  fix p
  assume "bs_targetPosition b = Some p \<and> Utils_distance3D (bs_position b) p < 100"
  then show "bs_velocity (Battleship_update dt b) = bs_velocity b"
    by (simp add: update_velocity Battleship_updateNavigation_def updatePropulsion_nav_fields
        distance3D_magnitude Let_def)
qed

subsection \<open>The rounded tick\<close>

text \<open>Without rounding, the rounded tick is the tick of the exact model.\<close>

lemma magnitude_fl_exact: "magnitude_fl round_exact v = magnitude v"
  by (simp add: magnitude_fl_def magnitude_def round_exact_def)

lemma normalize_fl_exact: "Utils_normalize_fl round_exact v = Utils_normalize v"
  unfolding Utils_normalize_fl_def Utils_normalize_def magnitude_fl_exact
  unfolding round_exact_def
  by (rule refl)

lemma updatePropulsion_fl_exact:
  "Battleship_updatePropulsion_fl round_exact dt b = Battleship_updatePropulsion dt b"
  unfolding Battleship_updatePropulsion_fl_def Battleship_updatePropulsion_def round_exact_def
  by (rule refl)

lemma updateNavigation_fl_exact:
  "Battleship_updateNavigation_fl round_exact dt b = Battleship_updateNavigation dt b"
  unfolding Battleship_updateNavigation_fl_def Battleship_updateNavigation_def
    magnitude_fl_exact normalize_fl_exact
  unfolding round_exact_def
  by (rule refl)

lemma update_fl_exact: "Battleship_update_fl round_exact dt b = Battleship_update dt b"
  unfolding Battleship_update_fl_def Battleship_update_def updatePropulsion_fl_exact
    updateNavigation_fl_exact magnitude_fl_exact
    Battleship_rechargeCapacitor_fl_def Battleship_rechargeCapacitor_def
    Smartbomb_update_fl_def Smartbomb_update_def
  unfolding round_exact_def
  by (rule refl)

lemma rounding_err: "rounding_model rnd u \<Longrightarrow> \<bar>rnd t - t\<bar> \<le> u * \<bar>t\<bar>"
  by (simp add: rounding_model_def)

lemma rounding_lo: "rounding_model rnd u \<Longrightarrow> 0 \<le> t \<Longrightarrow> t * (1 - u) \<le> rnd t"
proof -
  assume m: "rounding_model rnd u" and t: "0 \<le> t"
  from rounding_err[OF m, of t] t have "\<bar>rnd t - t\<bar> \<le> u * t" by simp
  then have "t - u * t \<le> rnd t" by linarith
  then show ?thesis by (simp add: algebra_simps)
qed

lemma rounding_hi: "rounding_model rnd u \<Longrightarrow> 0 \<le> t \<Longrightarrow> rnd t \<le> t * (1 + u)"
proof -
  assume m: "rounding_model rnd u" and t: "0 \<le> t"
  from rounding_err[OF m, of t] t have "\<bar>rnd t - t\<bar> \<le> u * t" by simp
  then have "rnd t \<le> t + u * t" by linarith
  then show ?thesis by (simp add: algebra_simps)
qed

lemma rounding_nonneg: "rounding_model rnd u \<Longrightarrow> 0 \<le> t \<Longrightarrow> 0 \<le> rnd t"
proof -
  assume m: "rounding_model rnd u" and t: "0 \<le> t"
  from m have "0 \<le> 1 - u" by (simp add: rounding_model_def)
  with t have "0 \<le> t * (1 - u)" by simp
  with rounding_lo[OF m t] show ?thesis by linarith
qed

lemma rounding_abs_hi: "rounding_model rnd u \<Longrightarrow> \<bar>rnd t\<bar> \<le> \<bar>t\<bar> * (1 + u)"
proof -
  assume m: "rounding_model rnd u"
  then have "\<bar>rnd t - t\<bar> \<le> u * \<bar>t\<bar>" by (simp add: rounding_model_def)
  then have "\<bar>rnd t\<bar> \<le> \<bar>t\<bar> + u * \<bar>t\<bar>" by linarith
  then show ?thesis by (simp add: algebra_simps)
qed

lemma rounding_abs_lo: "rounding_model rnd u \<Longrightarrow> \<bar>t\<bar> * (1 - u) \<le> \<bar>rnd t\<bar>"
proof -
  assume m: "rounding_model rnd u"
  then have "\<bar>rnd t - t\<bar> \<le> u * \<bar>t\<bar>" by (simp add: rounding_model_def)
  then have "\<bar>t\<bar> - u * \<bar>t\<bar> \<le> \<bar>rnd t\<bar>" by linarith
  then show ?thesis by (simp add: algebra_simps)
qed

lemma sqrt_fourth: "0 \<le> c \<Longrightarrow> sqrt (s * c ^ 4) = sqrt s * c ^ 2"
proof -
  assume c: "0 \<le> c"
  have "c ^ 4 = (c ^ 2) ^ 2" by simp
  then have "sqrt (c ^ 4) = \<bar>c ^ 2\<bar>" by (simp only: real_sqrt_abs)
  then show ?thesis by (simp add: real_sqrt_mult)
qed

text \<open>The rounded sum of squares and its root, against the exact ones.\<close>

lemma magnitude_fl_bounds:
  assumes m: "rounding_model rnd u"
  shows "magnitude v * (1 - u) ^ 3 \<le> magnitude_fl rnd v"
    and "magnitude_fl rnd v \<le> magnitude v * (1 + u) ^ 3"
proof -
  from m have u: "0 \<le> u" "u < 1" "0 \<le> 1 - u" "1 - u \<le> 1" "1 \<le> 1 + u" "0 \<le> 1 + u"
    by (simp_all add: rounding_model_def)
  define a where "a = rnd (x v * x v)"
  define b where "b = rnd (y v * y v)"
  define c where "c = rnd (z v * z v)"
  define s1 where "s1 = rnd (a + b)"
  define s2 where "s2 = rnd (s1 + c)"
  define S where "S = x v * x v + y v * y v + z v * z v"
  have S0: "0 \<le> S" by (simp add: S_def)
  have a: "x v * x v * (1 - u) \<le> a" "a \<le> x v * x v * (1 + u)" "0 \<le> a"
    unfolding a_def using rounding_lo[OF m] rounding_hi[OF m] rounding_nonneg[OF m] by simp_all
  have b: "y v * y v * (1 - u) \<le> b" "b \<le> y v * y v * (1 + u)" "0 \<le> b"
    unfolding b_def using rounding_lo[OF m] rounding_hi[OF m] rounding_nonneg[OF m] by simp_all
  have c: "z v * z v * (1 - u) \<le> c" "c \<le> z v * z v * (1 + u)" "0 \<le> c"
    unfolding c_def using rounding_lo[OF m] rounding_hi[OF m] rounding_nonneg[OF m] by simp_all
  have ab0: "0 \<le> a + b" using a b by simp
  have s1: "(a + b) * (1 - u) \<le> s1" "s1 \<le> (a + b) * (1 + u)" "0 \<le> s1"
    unfolding s1_def using rounding_lo[OF m ab0] rounding_hi[OF m ab0] rounding_nonneg[OF m ab0]
    by simp_all
  have sc0: "0 \<le> s1 + c" using s1 c by simp
  have s2: "(s1 + c) * (1 - u) \<le> s2" "s2 \<le> (s1 + c) * (1 + u)" "0 \<le> s2"
    unfolding s2_def using rounding_lo[OF m sc0] rounding_hi[OF m sc0] rounding_nonneg[OF m sc0]
    by simp_all
  have "(x v * x v + y v * y v) * (1 - u) \<le> a + b"
    using a(1) b(1) by (simp add: algebra_simps)
  then have "(x v * x v + y v * y v) * (1 - u) * (1 - u) \<le> (a + b) * (1 - u)"
    using u(3) by (intro mult_right_mono) simp_all
  with s1(1) have l1: "(x v * x v + y v * y v) * (1 - u) * (1 - u) \<le> s1" by linarith
  have "z v * z v * (1 - u) * (1 - u) \<le> z v * z v * (1 - u) * 1"
    using u(3,4) by (intro mult_left_mono) simp_all
  with c(1) have l2: "z v * z v * (1 - u) * (1 - u) \<le> c" by simp
  from l1 l2 have "S * (1 - u) * (1 - u) \<le> s1 + c" by (simp add: S_def algebra_simps)
  then have "S * (1 - u) * (1 - u) * (1 - u) \<le> (s1 + c) * (1 - u)"
    using u(3) by (intro mult_right_mono) simp_all
  with s2(1) have lo3: "S * (1 - u) ^ 3 \<le> s2" by (simp add: power3_eq_cube mult.assoc)
  have "S * (1 - u) ^ 4 = S * (1 - u) ^ 3 * (1 - u)" by (simp add: power_eq_if)
  also have "\<dots> \<le> S * (1 - u) ^ 3 * 1"
    using S0 u(3,4) by (intro mult_left_mono) simp_all
  finally have lo4: "S * (1 - u) ^ 4 \<le> s2" using lo3 by simp
  have "a + b \<le> (x v * x v + y v * y v) * (1 + u)"
    using a(2) b(2) by (simp add: algebra_simps)
  then have "(a + b) * (1 + u) \<le> (x v * x v + y v * y v) * (1 + u) * (1 + u)"
    using u(6) by (intro mult_right_mono) simp_all
  with s1(2) have h1: "s1 \<le> (x v * x v + y v * y v) * (1 + u) * (1 + u)" by linarith
  have "z v * z v * (1 + u) * 1 \<le> z v * z v * (1 + u) * (1 + u)"
    using u(5,6) by (intro mult_left_mono) simp_all
  with c(2) have h2: "c \<le> z v * z v * (1 + u) * (1 + u)" by simp
  from h1 h2 have "s1 + c \<le> S * (1 + u) * (1 + u)" by (simp add: S_def algebra_simps)
  then have "(s1 + c) * (1 + u) \<le> S * (1 + u) * (1 + u) * (1 + u)"
    using u(6) by (intro mult_right_mono) simp_all
  with s2(2) have hi3: "s2 \<le> S * (1 + u) ^ 3" by (simp add: power3_eq_cube mult.assoc)
  have "S * (1 + u) ^ 3 * 1 \<le> S * (1 + u) ^ 3 * (1 + u)"
    using S0 u(5,6) by (intro mult_left_mono) simp_all
  also have "\<dots> = S * (1 + u) ^ 4" by (simp add: power_eq_if)
  finally have hi4: "s2 \<le> S * (1 + u) ^ 4" using hi3 by simp
  have r: "magnitude_fl rnd v = rnd (sqrt s2)"
    by (simp add: magnitude_fl_def s2_def s1_def a_def b_def c_def)
  have mg: "magnitude v = sqrt S" by (simp add: magnitude_def S_def)
  have q0: "0 \<le> sqrt s2" using s2(3) by simp
  from lo4 have "sqrt (S * (1 - u) ^ 4) \<le> sqrt s2" by simp
  then have ql: "sqrt S * (1 - u) ^ 2 \<le> sqrt s2" using sqrt_fourth[OF u(3)] by simp
  from hi4 have "sqrt s2 \<le> sqrt (S * (1 + u) ^ 4)" by simp
  then have qh: "sqrt s2 \<le> sqrt S * (1 + u) ^ 2" using sqrt_fourth[OF u(6)] by simp
  from ql have "sqrt S * (1 - u) ^ 2 * (1 - u) \<le> sqrt s2 * (1 - u)"
    using u(3) by (intro mult_right_mono) simp_all
  with rounding_lo[OF m q0] have "sqrt S * (1 - u) ^ 2 * (1 - u) \<le> rnd (sqrt s2)" by linarith
  then show "magnitude v * (1 - u) ^ 3 \<le> magnitude_fl rnd v"
    by (simp add: r mg power_eq_if mult.assoc)
  from qh have "sqrt s2 * (1 + u) \<le> sqrt S * (1 + u) ^ 2 * (1 + u)"
    using u(6) by (intro mult_right_mono) simp_all
  with rounding_hi[OF m q0] have "rnd (sqrt s2) \<le> sqrt S * (1 + u) ^ 2 * (1 + u)" by linarith
  then show "magnitude_fl rnd v \<le> magnitude v * (1 + u) ^ 3"
    by (simp add: r mg power_eq_if mult.assoc)
qed

lemma magnitude_le_scale:
  assumes k: "0 \<le> k"
    and c: "\<bar>x a\<bar> \<le> k * \<bar>x b\<bar>" "\<bar>y a\<bar> \<le> k * \<bar>y b\<bar>" "\<bar>z a\<bar> \<le> k * \<bar>z b\<bar>"
  shows "magnitude a \<le> k * magnitude b"
proof -
  have sq: "\<And>p q. \<bar>p\<bar> \<le> k * \<bar>q\<bar> \<Longrightarrow> p * p \<le> k * k * (q * q)"
  proof -
    fix p q :: real
    assume "\<bar>p\<bar> \<le> k * \<bar>q\<bar>"
    then have "\<bar>p\<bar> \<le> \<bar>k * q\<bar>" using k by (simp add: abs_mult)
    then have "p\<^sup>2 \<le> (k * q)\<^sup>2" by (simp only: abs_le_square_iff)
    then show "p * p \<le> k * k * (q * q)" by (simp add: power2_eq_square algebra_simps)
  qed
  from sq[OF c(1)] sq[OF c(2)] sq[OF c(3)]
  have "x a * x a + y a * y a + z a * z a
          \<le> (k * k) * (x b * x b + y b * y b + z b * z b)"
    by (simp add: algebra_simps)
  then have "sqrt (x a * x a + y a * y a + z a * z a)
          \<le> sqrt ((k * k) * (x b * x b + y b * y b + z b * z b))"
    by simp
  also have "\<dots> = k * sqrt (x b * x b + y b * y b + z b * z b)"
    using k by (simp add: real_sqrt_mult)
  finally show ?thesis by (simp add: magnitude_def)
qed

lemma magnitude_ge_scale:
  assumes k: "0 \<le> k"
    and c: "k * \<bar>x b\<bar> \<le> \<bar>x a\<bar>" "k * \<bar>y b\<bar> \<le> \<bar>y a\<bar>" "k * \<bar>z b\<bar> \<le> \<bar>z a\<bar>"
  shows "k * magnitude b \<le> magnitude a"
proof -
  have sq: "\<And>p q. k * \<bar>q\<bar> \<le> \<bar>p\<bar> \<Longrightarrow> k * k * (q * q) \<le> p * p"
  proof -
    fix p q :: real
    assume "k * \<bar>q\<bar> \<le> \<bar>p\<bar>"
    then have "\<bar>k * q\<bar> \<le> \<bar>p\<bar>" using k by (simp add: abs_mult)
    then have "(k * q)\<^sup>2 \<le> p\<^sup>2" by (simp only: abs_le_square_iff)
    then show "k * k * (q * q) \<le> p * p" by (simp add: power2_eq_square algebra_simps)
  qed
  from sq[OF c(1)] sq[OF c(2)] sq[OF c(3)]
  have "(k * k) * (x b * x b + y b * y b + z b * z b)
          \<le> x a * x a + y a * y a + z a * z a"
    by (simp add: algebra_simps)
  then have "sqrt ((k * k) * (x b * x b + y b * y b + z b * z b))
          \<le> sqrt (x a * x a + y a * y a + z a * z a)"
    by simp
  moreover have "sqrt ((k * k) * (x b * x b + y b * y b + z b * z b))
          = k * sqrt (x b * x b + y b * y b + z b * z b)"
    using k by (simp add: real_sqrt_mult)
  ultimately show ?thesis by (simp add: magnitude_def)
qed

lemma magnitude_nonneg: "0 \<le> magnitude v"
  by (simp add: magnitude_def)

text \<open>The clamp of \<open>updateNavigation\<close> in rounded arithmetic: it lands near the limit, not on it.\<close>

lemma clamp_speed_fl:
  assumes m: "rounding_model rnd u" and M: "0 \<le> limit"
  shows "magnitude (if magnitude_fl rnd v > limit then
                      (let ratio = rnd (limit / magnitude_fl rnd v)
                       in \<lparr>x = rnd (x v * ratio), y = rnd (y v * ratio), z = rnd (z v * ratio)\<rparr>)
                    else v) * (1 - u) ^ 3
         \<le> limit * (1 + u) ^ 2"
proof (cases "magnitude_fl rnd v > limit")
  case False
  from m have u: "0 \<le> u" by (simp add: rounding_model_def)
  then have "1 \<le> (1 + u) ^ 2" by (simp add: one_le_power)
  with M have "limit * 1 \<le> limit * (1 + u) ^ 2" by (intro mult_left_mono) simp_all
  with False magnitude_fl_bounds(1)[OF m, of v] show ?thesis by simp
next
  case True
  from m have u: "0 \<le> u" "0 \<le> 1 + u" "0 \<le> 1 - u" by (simp_all add: rounding_model_def)
  define cv where "cv = magnitude_fl rnd v"
  define ratio where "ratio = rnd (limit / cv)"
  define k where "k = ratio * (1 + u)"
  from True M have cv: "0 < cv" by (simp add: cv_def)
  then have q: "0 \<le> limit / cv" using M by simp
  have r0: "0 \<le> ratio" unfolding ratio_def by (rule rounding_nonneg[OF m q])
  have r1: "ratio \<le> limit / cv * (1 + u)" unfolding ratio_def by (rule rounding_hi[OF m q])
  have k0: "0 \<le> k" using r0 u by (simp add: k_def)
  have comp: "\<And>p. \<bar>rnd (p * ratio)\<bar> \<le> k * \<bar>p\<bar>"
  proof -
    fix p
    have "\<bar>rnd (p * ratio)\<bar> \<le> \<bar>p * ratio\<bar> * (1 + u)" by (rule rounding_abs_hi[OF m])
    also have "\<dots> = k * \<bar>p\<bar>" using r0 by (simp add: k_def abs_mult)
    finally show "\<bar>rnd (p * ratio)\<bar> \<le> k * \<bar>p\<bar>" .
  qed
  have "magnitude \<lparr>x = rnd (x v * ratio), y = rnd (y v * ratio), z = rnd (z v * ratio)\<rparr>
          \<le> k * magnitude v"
    by (rule magnitude_le_scale[OF k0]) (simp_all add: comp)
  then have "magnitude \<lparr>x = rnd (x v * ratio), y = rnd (y v * ratio), z = rnd (z v * ratio)\<rparr>
               * (1 - u) ^ 3
          \<le> k * magnitude v * (1 - u) ^ 3"
    using u(3) by (intro mult_right_mono) simp_all
  also have "\<dots> = k * (magnitude v * (1 - u) ^ 3)" by simp
  also have "\<dots> \<le> k * cv"
    using k0 magnitude_fl_bounds(1)[OF m, of v] unfolding cv_def by (intro mult_left_mono)
  also have "\<dots> = ratio * cv * (1 + u)" by (simp add: k_def)
  also have "\<dots> \<le> (limit / cv * (1 + u)) * cv * (1 + u)"
    using r1 cv u(2) by (intro mult_right_mono) simp_all
  also have "\<dots> = limit * (1 + u) ^ 2" using cv by (simp add: power2_eq_square)
  finally show ?thesis using True by (simp add: Let_def cv_def ratio_def)
qed

lemma updatePropulsion_fl_maxSpeed_nonneg:
  assumes "rounding_model rnd u" "0 \<le> bs_baseSpeed b" "0 \<le> bs_afterburnerBoost b"
    "0 \<le> bs_mwdBoost b"
  shows "0 \<le> bs_maxSpeed (Battleship_updatePropulsion_fl rnd dt b)"
proof -
  have a: "0 \<le> rnd (bs_baseSpeed b * bs_afterburnerBoost b)"
    using assms by (intro rounding_nonneg[OF assms(1)]) simp
  have b1: "0 \<le> rnd (bs_baseSpeed b * bs_mwdBoost b)"
    using assms by (intro rounding_nonneg[OF assms(1)]) simp
  have c: "0 \<le> rnd (rnd (bs_baseSpeed b * bs_afterburnerBoost b) * bs_mwdBoost b)"
    using assms a by (intro rounding_nonneg[OF assms(1)]) simp
  show ?thesis
    using assms(2) a b1 c by (simp add: Battleship_updatePropulsion_fl_def Let_def)
qed

lemma updatePropulsion_fl_nav_fields:
  "bs_targetPosition (Battleship_updatePropulsion_fl rnd dt b) = bs_targetPosition b"
  "bs_position (Battleship_updatePropulsion_fl rnd dt b) = bs_position b"
  "bs_velocity (Battleship_updatePropulsion_fl rnd dt b) = bs_velocity b"
  by (simp_all add: Battleship_updatePropulsion_fl_def Let_def)

lemma update_fl_velocity:
  "bs_velocity (Battleship_update_fl rnd dt b)
     = bs_velocity (Battleship_updateNavigation_fl rnd dt (Battleship_updatePropulsion_fl rnd dt b))"
  "bs_maxSpeed (Battleship_update_fl rnd dt b) = bs_maxSpeed (Battleship_updatePropulsion_fl rnd dt b)"
  "bs_currentSpeed (Battleship_update_fl rnd dt b)
     = magnitude_fl rnd (bs_velocity (Battleship_update_fl rnd dt b))"
  by (simp_all add: Battleship_update_fl_def Battleship_rechargeCapacitor_fl_def
      Battleship_updateNavigation_fl_def Let_def split: option.splits)

lemma updateNavigation_fl_pursuit_speed:
  assumes m: "rounding_model rnd u" and M: "0 \<le> bs_maxSpeed b"
    and t: "bs_targetPosition b = Some p"
    and d: "100 \<le> magnitude_fl rnd \<lparr>x = rnd (x p - x (bs_position b)),
                                     y = rnd (y p - y (bs_position b)),
                                     z = rnd (z p - z (bs_position b))\<rparr>"
  shows "magnitude (bs_velocity (Battleship_updateNavigation_fl rnd dt b)) * (1 - u) ^ 3
           \<le> bs_maxSpeed b * (1 + u) ^ 2"
proof -
  define n where "n = Utils_normalize_fl rnd \<lparr>x = rnd (x p - x (bs_position b)),
                                            y = rnd (y p - y (bs_position b)),
                                            z = rnd (z p - z (bs_position b))\<rparr>"
  define acc where "acc = rnd (bs_maxSpeed b * rnd (3 / 10))"
  define v1 where "v1 = \<lparr>x = rnd (x (bs_velocity b) + rnd (rnd (x n * acc) * dt)),
                         y = rnd (y (bs_velocity b) + rnd (rnd (y n * acc) * dt)),
                         z = rnd (z (bs_velocity b) + rnd (rnd (z n * acc) * dt))\<rparr>"
  have "bs_velocity (Battleship_updateNavigation_fl rnd dt b) =
          (if magnitude_fl rnd v1 > bs_maxSpeed b then
             (let ratio = rnd (bs_maxSpeed b / magnitude_fl rnd v1)
              in \<lparr>x = rnd (x v1 * ratio), y = rnd (y v1 * ratio), z = rnd (z v1 * ratio)\<rparr>)
           else v1)"
    using t d
    by (simp add: Battleship_updateNavigation_fl_def Let_def v1_def n_def acc_def)
  then show ?thesis
    using clamp_speed_fl[OF m M, of v1] by simp
qed

lemma updateNavigation_fl_idle:
  assumes m: "rounding_model rnd u" and t: "bs_targetPosition b = None"
  shows "(95 / 100) * (1 - u) ^ 2 * magnitude (bs_velocity b)
           \<le> magnitude (bs_velocity (Battleship_updateNavigation_fl rnd dt b))"
    and "magnitude (bs_velocity (Battleship_updateNavigation_fl rnd dt b))
           \<le> (95 / 100) * (1 + u) ^ 2 * magnitude (bs_velocity b)"
proof -
  from m have u: "0 \<le> u" "0 \<le> 1 + u" "0 \<le> 1 - u" by (simp_all add: rounding_model_def)
  define c where "c = rnd (95 / 100)"
  define v' where "v' = \<lparr>x = rnd (x (bs_velocity b) * c), y = rnd (y (bs_velocity b) * c),
                         z = rnd (z (bs_velocity b) * c)\<rparr>"
  have v: "bs_velocity (Battleship_updateNavigation_fl rnd dt b) = v'"
    using t by (simp add: Battleship_updateNavigation_fl_def v'_def c_def)
  have c0: "0 \<le> c" unfolding c_def by (rule rounding_nonneg[OF m]) simp
  have cl: "(95 / 100) * (1 - u) \<le> c" unfolding c_def using rounding_lo[OF m, of "95 / 100"] by simp
  have ch: "c \<le> (95 / 100) * (1 + u)" unfolding c_def using rounding_hi[OF m, of "95 / 100"] by simp
  have hi: "\<And>p. \<bar>rnd (p * c)\<bar> \<le> (c * (1 + u)) * \<bar>p\<bar>"
  proof -
    fix p
    have "\<bar>rnd (p * c)\<bar> \<le> \<bar>p * c\<bar> * (1 + u)" by (rule rounding_abs_hi[OF m])
    also have "\<dots> = (c * (1 + u)) * \<bar>p\<bar>" using c0 by (simp add: abs_mult)
    finally show "\<bar>rnd (p * c)\<bar> \<le> (c * (1 + u)) * \<bar>p\<bar>" .
  qed
  have lo: "\<And>p. (c * (1 - u)) * \<bar>p\<bar> \<le> \<bar>rnd (p * c)\<bar>"
  proof -
    fix p
    have "(c * (1 - u)) * \<bar>p\<bar> = \<bar>p * c\<bar> * (1 - u)" using c0 by (simp add: abs_mult)
    also have "\<dots> \<le> \<bar>rnd (p * c)\<bar>" by (rule rounding_abs_lo[OF m])
    finally show "(c * (1 - u)) * \<bar>p\<bar> \<le> \<bar>rnd (p * c)\<bar>" .
  qed
  have k1: "0 \<le> c * (1 + u)" "0 \<le> c * (1 - u)" using c0 u by simp_all
  have kh: "c * (1 + u) \<le> (95 / 100) * (1 + u) ^ 2"
  proof -
    have "c * (1 + u) \<le> ((95 / 100) * (1 + u)) * (1 + u)"
      using ch u(2) by (intro mult_right_mono)
    then show ?thesis by (simp add: power2_eq_square algebra_simps)
  qed
  have kl: "(95 / 100) * (1 - u) ^ 2 \<le> c * (1 - u)"
  proof -
    have "((95 / 100) * (1 - u)) * (1 - u) \<le> c * (1 - u)"
      using cl u(3) by (intro mult_right_mono)
    then show ?thesis by (simp add: power2_eq_square algebra_simps)
  qed
  have "magnitude v' \<le> (c * (1 + u)) * magnitude (bs_velocity b)"
    by (rule magnitude_le_scale[OF k1(1)]) (simp_all add: v'_def hi)
  also have "\<dots> \<le> ((95 / 100) * (1 + u) ^ 2) * magnitude (bs_velocity b)"
    using kh magnitude_nonneg[of "bs_velocity b"] by (intro mult_right_mono)
  finally show "magnitude (bs_velocity (Battleship_updateNavigation_fl rnd dt b))
           \<le> (95 / 100) * (1 + u) ^ 2 * magnitude (bs_velocity b)"
    by (simp only: v)
  have "((95 / 100) * (1 - u) ^ 2) * magnitude (bs_velocity b)
          \<le> (c * (1 - u)) * magnitude (bs_velocity b)"
    using kl magnitude_nonneg[of "bs_velocity b"] by (intro mult_right_mono)
  also have "\<dots> \<le> magnitude v'"
    by (rule magnitude_ge_scale[OF k1(2)]) (simp_all add: v'_def lo)
  finally show "(95 / 100) * (1 - u) ^ 2 * magnitude (bs_velocity b)
           \<le> magnitude (bs_velocity (Battleship_updateNavigation_fl rnd dt b))"
    by (simp only: v)
qed

text \<open>
  C3, amended. In arithmetic that rounds every result with a relative error of at most \<open>u\<close>
  (doubles: \<open>u = 2^-53\<close>, barring overflow and underflow), with a non-negative base speed and
  non-negative boost factors: after a tick on which the battleship has a destination that
  the tick measures at least 100 units away, the magnitude of its velocity is at most the
  \<open>maxSpeed\<close> recomputed on that tick up to rounding, \<open>|velocity| * (1 - u)^3 \<le> maxSpeed *
  (1 + u)^2\<close>, and so is the \<open>currentSpeed\<close> the tick stores, \<open>currentSpeed * (1 - u)^3 \<le>
  maxSpeed * (1 + u)^5\<close>, whichever modules ran or switched off. On a tick without a
  destination the velocity is only scaled by 0.95, up to rounding, and on arrival (destination
  measured closer than 100) it is left as it is; neither path clamps.
\<close>

theorem pursuit_speed_within_rounded_maxSpeed:
  "rounding_model rnd u
   \<and> 0 \<le> bs_baseSpeed b \<and> 0 \<le> bs_afterburnerBoost b \<and> 0 \<le> bs_mwdBoost b \<longrightarrow>
     (\<forall>p. bs_targetPosition b = Some p
          \<and> 100 \<le> magnitude_fl rnd \<lparr>x = rnd (x p - x (bs_position b)),
                                     y = rnd (y p - y (bs_position b)),
                                     z = rnd (z p - z (bs_position b))\<rparr> \<longrightarrow>
          magnitude (bs_velocity (Battleship_update_fl rnd dt b)) * (1 - u) ^ 3
            \<le> bs_maxSpeed (Battleship_update_fl rnd dt b) * (1 + u) ^ 2
          \<and> bs_currentSpeed (Battleship_update_fl rnd dt b) * (1 - u) ^ 3
            \<le> bs_maxSpeed (Battleship_update_fl rnd dt b) * (1 + u) ^ 5)
     \<and> (bs_targetPosition b = None \<longrightarrow>
          (95 / 100) * (1 - u) ^ 2 * magnitude (bs_velocity b)
            \<le> magnitude (bs_velocity (Battleship_update_fl rnd dt b))
          \<and> magnitude (bs_velocity (Battleship_update_fl rnd dt b))
            \<le> (95 / 100) * (1 + u) ^ 2 * magnitude (bs_velocity b))
     \<and> (\<forall>p. bs_targetPosition b = Some p
          \<and> magnitude_fl rnd \<lparr>x = rnd (x p - x (bs_position b)),
                               y = rnd (y p - y (bs_position b)),
                               z = rnd (z p - z (bs_position b))\<rparr> < 100 \<longrightarrow>
          bs_velocity (Battleship_update_fl rnd dt b) = bs_velocity b)"
proof (intro impI conjI allI)
  fix p
  assume c: "rounding_model rnd u
             \<and> 0 \<le> bs_baseSpeed b \<and> 0 \<le> bs_afterburnerBoost b \<and> 0 \<le> bs_mwdBoost b"
    and t: "bs_targetPosition b = Some p
            \<and> 100 \<le> magnitude_fl rnd \<lparr>x = rnd (x p - x (bs_position b)),
                                       y = rnd (y p - y (bs_position b)),
                                       z = rnd (z p - z (bs_position b))\<rparr>"
  from c have m: "rounding_model rnd u" by simp
  from m have u: "0 \<le> u" "0 \<le> 1 + u" "0 \<le> 1 - u" by (simp_all add: rounding_model_def)
  define b1 where "b1 = Battleship_updatePropulsion_fl rnd dt b"
  define b' where "b' = Battleship_update_fl rnd dt b"
  from c have M: "0 \<le> bs_maxSpeed b1"
    unfolding b1_def by (intro updatePropulsion_fl_maxSpeed_nonneg[where u = u]) simp_all
  have "magnitude (bs_velocity (Battleship_updateNavigation_fl rnd dt b1)) * (1 - u) ^ 3
          \<le> bs_maxSpeed b1 * (1 + u) ^ 2"
    using t by (intro updateNavigation_fl_pursuit_speed[OF m M, where p = p])
               (simp_all add: b1_def updatePropulsion_fl_nav_fields)
  then have v: "magnitude (bs_velocity b') * (1 - u) ^ 3 \<le> bs_maxSpeed b' * (1 + u) ^ 2"
    by (simp add: b'_def b1_def update_fl_velocity(1,2))
  then show "magnitude (bs_velocity (Battleship_update_fl rnd dt b)) * (1 - u) ^ 3
            \<le> bs_maxSpeed (Battleship_update_fl rnd dt b) * (1 + u) ^ 2"
    by (simp add: b'_def)
  have cs: "bs_currentSpeed b' = magnitude_fl rnd (bs_velocity b')"
    by (simp add: b'_def update_fl_velocity(3))
  have "bs_currentSpeed b' * (1 - u) ^ 3 \<le> (magnitude (bs_velocity b') * (1 + u) ^ 3) * (1 - u) ^ 3"
    unfolding cs using magnitude_fl_bounds(2)[OF m, of "bs_velocity b'"] u(3)
    by (intro mult_right_mono) simp_all
  also have "\<dots> = (magnitude (bs_velocity b') * (1 - u) ^ 3) * (1 + u) ^ 3" by simp
  also have "\<dots> \<le> (bs_maxSpeed b' * (1 + u) ^ 2) * (1 + u) ^ 3"
    using v u(2) by (intro mult_right_mono) simp_all
  also have "\<dots> = bs_maxSpeed b' * (1 + u) ^ 5" by (simp add: power_add[symmetric] mult.assoc)
  finally show "bs_currentSpeed (Battleship_update_fl rnd dt b) * (1 - u) ^ 3
            \<le> bs_maxSpeed (Battleship_update_fl rnd dt b) * (1 + u) ^ 5"
    by (simp add: b'_def)
next
  assume c: "rounding_model rnd u
             \<and> 0 \<le> bs_baseSpeed b \<and> 0 \<le> bs_afterburnerBoost b \<and> 0 \<le> bs_mwdBoost b"
    and t: "bs_targetPosition b = None"
  from c have m: "rounding_model rnd u" by simp
  have t1: "bs_targetPosition (Battleship_updatePropulsion_fl rnd dt b) = None"
    using t by (simp add: updatePropulsion_fl_nav_fields)
  from updateNavigation_fl_idle[OF m t1, of dt]
  show "(95 / 100) * (1 - u) ^ 2 * magnitude (bs_velocity b)
            \<le> magnitude (bs_velocity (Battleship_update_fl rnd dt b))"
    "magnitude (bs_velocity (Battleship_update_fl rnd dt b))
            \<le> (95 / 100) * (1 + u) ^ 2 * magnitude (bs_velocity b)"
    by (simp_all add: update_fl_velocity(1) updatePropulsion_fl_nav_fields)
next
  fix p
  assume "bs_targetPosition b = Some p
          \<and> magnitude_fl rnd \<lparr>x = rnd (x p - x (bs_position b)),
                               y = rnd (y p - y (bs_position b)),
                               z = rnd (z p - z (bs_position b))\<rparr> < 100"
  then show "bs_velocity (Battleship_update_fl rnd dt b) = bs_velocity b"
    by (simp add: update_fl_velocity(1) Battleship_updateNavigation_fl_def
        updatePropulsion_fl_nav_fields Let_def)
qed

lemma rounding_model_round_down: "rounding_model round_down unit_roundoff"
proof -
  have "\<And>t. \<bar>round_down t - t\<bar> = unit_roundoff * \<bar>t\<bar>"
  proof -
    fix t :: real
    have "round_down t - t = - (unit_roundoff * t)"
      by (simp add: round_down_def algebra_simps)
    then show "\<bar>round_down t - t\<bar> = unit_roundoff * \<bar>t\<bar>"
      by (simp add: abs_mult unit_roundoff_def)
  qed
  then show ?thesis by (simp add: rounding_model_def unit_roundoff_def)
qed

lemma rounding_model_exact: "rounding_model round_exact 0"
  by (simp add: rounding_model_def round_exact_def)

lemma unit_roundoff_small:
  "100 \<le> 1000 * (1 - unit_roundoff) * (1 - unit_roundoff) ^ 3"
  "(125 / 2) * (1 - unit_roundoff) * (1 + unit_roundoff) ^ 3 < 100"
proof -
  have u: "0 \<le> unit_roundoff" "unit_roundoff \<le> 1 / 100"
    by (simp_all add: unit_roundoff_def)
  then have lo: "99 / 100 \<le> 1 - unit_roundoff" "1 - unit_roundoff \<le> 1"
    and hi: "0 \<le> 1 + unit_roundoff" "1 + unit_roundoff \<le> 101 / 100"
    by simp_all
  define w where "w = (1 - unit_roundoff) * (1 - unit_roundoff) ^ 3"
  define w' where "w' = (1 - unit_roundoff) * (1 + unit_roundoff) ^ 3"
  from lo(1) have "(99 / 100) ^ 3 \<le> (1 - unit_roundoff) ^ 3"
    by (intro power_mono) simp_all
  with lo(1) have "(99 / 100) * (99 / 100) ^ 3 \<le> w"
    unfolding w_def by (intro mult_mono) simp_all
  moreover have "(99 / 100) * (99 / 100) ^ 3 = (96059601 / 100000000 :: real)"
    by (simp add: power3_eq_cube)
  ultimately have "100 \<le> 1000 * w" by linarith
  then show "100 \<le> 1000 * (1 - unit_roundoff) * (1 - unit_roundoff) ^ 3"
    by (simp only: w_def mult.assoc)
  from hi have "(1 + unit_roundoff) ^ 3 \<le> (101 / 100) ^ 3"
    by (intro power_mono) simp_all
  with lo(2) u(1) have "w' \<le> 1 * (101 / 100) ^ 3"
    unfolding w'_def by (intro mult_mono) simp_all
  moreover have "1 * (101 / 100) ^ 3 = (1030301 / 1000000 :: real)"
    by (simp add: power3_eq_cube)
  ultimately have "(125 / 2) * w' < 100" by linarith
  then show "(125 / 2) * (1 - unit_roundoff) * (1 + unit_roundoff) ^ 3 < 100"
    by (simp only: w'_def mult.assoc)
qed

text \<open>
  C3 amended, in the arithmetic that cuts every result by \<open>2^-53\<close> of its value: on the
  afterburner run towards a destination 1000 m away, on the same ship once it coasts without
  a destination, and on the coasting ship arriving at a destination.
\<close>

theorem pursuit_speed_within_rounded_maxSpeed_witness:
  "rounding_model round_down unit_roundoff
   \<and> magnitude (bs_velocity (Battleship_update_fl round_down 1 Battleship_afterburner_run))
         * (1 - unit_roundoff) ^ 3
       \<le> bs_maxSpeed (Battleship_update_fl round_down 1 Battleship_afterburner_run)
             * (1 + unit_roundoff) ^ 2
   \<and> bs_currentSpeed (Battleship_update_fl round_down 1 Battleship_afterburner_run)
         * (1 - unit_roundoff) ^ 3
       \<le> bs_maxSpeed (Battleship_update_fl round_down 1 Battleship_afterburner_run)
             * (1 + unit_roundoff) ^ 5
   \<and> magnitude (bs_velocity (Battleship_update_fl round_down 1 Battleship_coasting))
       \<le> (95 / 100) * (1 + unit_roundoff) ^ 2 * magnitude (bs_velocity Battleship_coasting)
   \<and> bs_velocity (Battleship_update_fl round_down 1 Battleship_arriving)
       = \<lparr>x = 675 / 4, y = 0, z = 0\<rparr>"
proof -
  note m = rounding_model_round_down
  have c: "0 \<le> bs_baseSpeed Battleship_afterburner_run
           \<and> 0 \<le> bs_afterburnerBoost Battleship_afterburner_run
           \<and> 0 \<le> bs_mwdBoost Battleship_afterburner_run"
    by (simp add: Battleship_afterburner_run_def Battleship_toggleAfterburner_def
        Battleship_navigateTo_def Battleship_new_def Let_def)
  have t: "bs_targetPosition Battleship_afterburner_run = Some \<lparr>x = 1000, y = 0, z = 0\<rparr>"
    "bs_position Battleship_afterburner_run = \<lparr>x = 0, y = 0, z = 0\<rparr>"
    by (simp_all add: Battleship_afterburner_run_def Battleship_toggleAfterburner_def
        Battleship_navigateTo_def Battleship_new_def Let_def)
  have "magnitude \<lparr>x = round_down 1000, y = round_down 0, z = round_down 0\<rparr>
          * (1 - unit_roundoff) ^ 3
        \<le> magnitude_fl round_down \<lparr>x = round_down 1000, y = round_down 0, z = round_down 0\<rparr>"
    by (rule magnitude_fl_bounds(1)[OF m])
  moreover have "magnitude \<lparr>x = round_down 1000, y = round_down 0, z = round_down 0\<rparr>
                   = 1000 * (1 - unit_roundoff)"
    by (simp add: round_down_def unit_roundoff_def)
  ultimately have d: "100 \<le> magnitude_fl round_down
                            \<lparr>x = round_down 1000, y = round_down 0, z = round_down 0\<rparr>"
    using unit_roundoff_small(1) by simp
  have h1: "bs_targetPosition Battleship_afterburner_run = Some \<lparr>x = 1000, y = 0, z = 0\<rparr>
     \<and> 100 \<le> magnitude_fl round_down
         \<lparr>x = round_down (x \<lparr>x = 1000, y = 0, z = 0\<rparr> - x (bs_position Battleship_afterburner_run)),
          y = round_down (y \<lparr>x = 1000, y = 0, z = 0\<rparr> - y (bs_position Battleship_afterburner_run)),
          z = round_down (z \<lparr>x = 1000, y = 0, z = 0\<rparr> - z (bs_position Battleship_afterburner_run))\<rparr>"
    using d by (simp add: t)
  have c2: "0 \<le> bs_baseSpeed Battleship_coasting \<and> 0 \<le> bs_afterburnerBoost Battleship_coasting
            \<and> 0 \<le> bs_mwdBoost Battleship_coasting"
    by (simp add: Battleship_coasting_eq Battleship_new_def)
  have t2: "bs_targetPosition Battleship_coasting = None"
    by (simp add: Battleship_coasting_eq Battleship_new_def)
  have c3: "0 \<le> bs_baseSpeed Battleship_arriving \<and> 0 \<le> bs_afterburnerBoost Battleship_arriving
            \<and> 0 \<le> bs_mwdBoost Battleship_arriving"
    by (simp add: Battleship_arriving_def Battleship_navigateTo_def Battleship_coasting_eq
        Battleship_new_def)
  have t3: "bs_targetPosition Battleship_arriving = Some \<lparr>x = 400, y = 0, z = 0\<rparr>"
    "bs_position Battleship_arriving = \<lparr>x = 675 / 2, y = 0, z = 0\<rparr>"
    "bs_velocity Battleship_arriving = \<lparr>x = 675 / 4, y = 0, z = 0\<rparr>"
    by (simp_all add: Battleship_arriving_def Battleship_navigateTo_def Battleship_coasting_eq
        Battleship_new_def)
  have "magnitude_fl round_down \<lparr>x = round_down (125 / 2), y = round_down 0, z = round_down 0\<rparr>
        \<le> magnitude \<lparr>x = round_down (125 / 2), y = round_down 0, z = round_down 0\<rparr>
             * (1 + unit_roundoff) ^ 3"
    by (rule magnitude_fl_bounds(2)[OF m])
  moreover have "magnitude \<lparr>x = round_down (125 / 2), y = round_down 0, z = round_down 0\<rparr>
                   = (125 / 2) * (1 - unit_roundoff)"
    by (simp add: round_down_def unit_roundoff_def)
  ultimately have d3: "magnitude_fl round_down
                         \<lparr>x = round_down (125 / 2), y = round_down 0, z = round_down 0\<rparr> < 100"
    using unit_roundoff_small(2) by simp
  have h3: "bs_targetPosition Battleship_arriving = Some \<lparr>x = 400, y = 0, z = 0\<rparr>
     \<and> magnitude_fl round_down
         \<lparr>x = round_down (x \<lparr>x = 400, y = 0, z = 0\<rparr> - x (bs_position Battleship_arriving)),
          y = round_down (y \<lparr>x = 400, y = 0, z = 0\<rparr> - y (bs_position Battleship_arriving)),
          z = round_down (z \<lparr>x = 400, y = 0, z = 0\<rparr> - z (bs_position Battleship_arriving))\<rparr>
        < 100"
    using d3 by (simp add: t3)
  note run = pursuit_speed_within_rounded_maxSpeed
               [of round_down unit_roundoff Battleship_afterburner_run 1]
  note coast = pursuit_speed_within_rounded_maxSpeed
               [of round_down unit_roundoff Battleship_coasting 1]
  note arrive = pursuit_speed_within_rounded_maxSpeed
               [of round_down unit_roundoff Battleship_arriving 1]
  have 1: "magnitude (bs_velocity (Battleship_update_fl round_down 1 Battleship_afterburner_run))
         * (1 - unit_roundoff) ^ 3
       \<le> bs_maxSpeed (Battleship_update_fl round_down 1 Battleship_afterburner_run)
             * (1 + unit_roundoff) ^ 2
     \<and> bs_currentSpeed (Battleship_update_fl round_down 1 Battleship_afterburner_run)
         * (1 - unit_roundoff) ^ 3
       \<le> bs_maxSpeed (Battleship_update_fl round_down 1 Battleship_afterburner_run)
             * (1 + unit_roundoff) ^ 5"
    using run m c h1 by blast
  have 2: "magnitude (bs_velocity (Battleship_update_fl round_down 1 Battleship_coasting))
       \<le> (95 / 100) * (1 + unit_roundoff) ^ 2 * magnitude (bs_velocity Battleship_coasting)"
    using coast m c2 t2 by blast
  have "bs_velocity (Battleship_update_fl round_down 1 Battleship_arriving)
          = bs_velocity Battleship_arriving"
    using arrive m c3 h3 by blast
  then have 3: "bs_velocity (Battleship_update_fl round_down 1 Battleship_arriving)
       = \<lparr>x = 675 / 4, y = 0, z = 0\<rparr>"
    by (simp only: t3(3))
  from m 1 2 3 show ?thesis by (intro conjI) blast+
qed

text \<open>
  The tolerance is needed. The coasting ship given a destination 662.5 m ahead accelerates
  past its \<open>maxSpeed\<close> of 125 and is clamped: in exact arithmetic to 125, and in the arithmetic
  that cuts every result to \<open>125 / sqrt (1 - 2^-53)\<close>, which is more than 125.
\<close>

lemma round_down_zero [simp]: "round_down 0 = 0"
  by (simp add: round_down_def)

lemma roundoff_factor:
  "0 < 1 - unit_roundoff" "1 - unit_roundoff < 1" "99 / 100 \<le> 1 - unit_roundoff"
  by (simp_all add: unit_roundoff_def)

lemma magnitude_fl_round_down_axis:
  assumes "0 < a"
  shows "magnitude_fl round_down \<lparr>x = a, y = 0, z = 0\<rparr>
           = a * (1 - unit_roundoff) ^ 2 * sqrt (1 - unit_roundoff)"
proof -
  define w where "w = 1 - unit_roundoff"
  have w: "0 < w" unfolding w_def by (rule roundoff_factor(1))
  have "sqrt (a * a * w * w * w) = sqrt ((a * w) * (a * w)) * sqrt w"
    by (simp add: real_sqrt_mult[symmetric] algebra_simps)
  also have "\<dots> = a * w * sqrt w" using assms w by simp
  finally have "sqrt (a * a * w * w * w) * w = a * w ^ 2 * sqrt w"
    by (simp add: power2_eq_square)
  then show ?thesis
    by (simp add: magnitude_fl_def round_down_def w_def)
qed

lemma clamp_axis_round_down:
  assumes a: "0 < a" and l: "0 < limit"
    and c: "limit < magnitude_fl round_down \<lparr>x = a, y = 0, z = 0\<rparr>"
  shows "magnitude (if magnitude_fl round_down \<lparr>x = a, y = 0, z = 0\<rparr> > limit then
                      (let ratio = round_down (limit / magnitude_fl round_down \<lparr>x = a, y = 0, z = 0\<rparr>)
                       in \<lparr>x = round_down (x \<lparr>x = a, y = 0, z = 0\<rparr> * ratio),
                           y = round_down (y \<lparr>x = a, y = 0, z = 0\<rparr> * ratio),
                           z = round_down (z \<lparr>x = a, y = 0, z = 0\<rparr> * ratio)\<rparr>)
                    else \<lparr>x = a, y = 0, z = 0\<rparr>)
         = limit / sqrt (1 - unit_roundoff)"
proof -
  define w where "w = 1 - unit_roundoff"
  have w: "0 < w" unfolding w_def by (rule roundoff_factor(1))
  then have sw: "0 < sqrt w" by simp
  define cv where "cv = magnitude_fl round_down \<lparr>x = a, y = 0, z = 0\<rparr>"
  have cv: "cv = a * w ^ 2 * sqrt w"
    unfolding cv_def w_def by (rule magnitude_fl_round_down_axis[OF a])
  have "a * (limit / cv * w) * w = limit / sqrt w"
    using a w sw by (simp add: cv power2_eq_square field_simps)
  moreover have "\<bar>limit\<bar> = limit" "\<bar>sqrt w\<bar> = sqrt w" using l sw by simp_all
  ultimately show ?thesis
    using c by (simp add: Let_def round_down_def cv_def[symmetric] w_def[symmetric])
qed

lemma updateNavigation_fl_pursuit_velocity:
  assumes t: "bs_targetPosition b = Some p"
    and d: "100 \<le> magnitude_fl rnd \<lparr>x = rnd (x p - x (bs_position b)),
                                     y = rnd (y p - y (bs_position b)),
                                     z = rnd (z p - z (bs_position b))\<rparr>"
    and n: "n = Utils_normalize_fl rnd \<lparr>x = rnd (x p - x (bs_position b)),
                                        y = rnd (y p - y (bs_position b)),
                                        z = rnd (z p - z (bs_position b))\<rparr>"
    and acc: "acc = rnd (bs_maxSpeed b * rnd (3 / 10))"
    and v1: "v1 = \<lparr>x = rnd (x (bs_velocity b) + rnd (rnd (x n * acc) * dt)),
                    y = rnd (y (bs_velocity b) + rnd (rnd (y n * acc) * dt)),
                    z = rnd (z (bs_velocity b) + rnd (rnd (z n * acc) * dt))\<rparr>"
  shows "bs_velocity (Battleship_updateNavigation_fl rnd dt b) =
          (if magnitude_fl rnd v1 > bs_maxSpeed b then
             (let ratio = rnd (bs_maxSpeed b / magnitude_fl rnd v1)
              in \<lparr>x = rnd (x v1 * ratio), y = rnd (y v1 * ratio), z = rnd (z v1 * ratio)\<rparr>)
           else v1)"
  using t d by (simp add: Battleship_updateNavigation_fl_def Let_def v1 n acc)

lemma Battleship_resuming_fields:
  "bs_targetPosition Battleship_resuming = Some \<lparr>x = 1000, y = 0, z = 0\<rparr>"
  "bs_position Battleship_resuming = \<lparr>x = 675 / 2, y = 0, z = 0\<rparr>"
  "bs_velocity Battleship_resuming = \<lparr>x = 675 / 4, y = 0, z = 0\<rparr>"
  "bs_baseSpeed Battleship_resuming = 125"
  "bs_afterburnerActive Battleship_resuming = False"
  "bs_mwdActive Battleship_resuming = False"
  by (simp_all add: Battleship_resuming_def Battleship_navigateTo_def Battleship_coasting_eq
      Battleship_new_def)

lemma resuming_exact:
  "bs_maxSpeed (Battleship_update 1 Battleship_resuming) = 125
   \<and> magnitude (bs_velocity (Battleship_update 1 Battleship_resuming)) = 125"
  by (simp add: update_velocity Battleship_updateNavigation_def Battleship_updatePropulsion_def
      Battleship_resuming_fields Let_def)

lemma pursuit_overshoots_rounding_down:
  "bs_maxSpeed (Battleship_update_fl round_down 1 Battleship_resuming) = 125
   \<and> magnitude (bs_velocity (Battleship_update_fl round_down 1 Battleship_resuming))
       = 125 / sqrt (1 - unit_roundoff)
   \<and> bs_maxSpeed (Battleship_update_fl round_down 1 Battleship_resuming)
       < magnitude (bs_velocity (Battleship_update_fl round_down 1 Battleship_resuming))"
proof -
  define w where "w = 1 - unit_roundoff"
  have w: "0 < w" "w < 1" "99 / 100 \<le> w" unfolding w_def by (rule roundoff_factor)+
  have sw: "0 < sqrt w" "sqrt w < 1" "w \<le> sqrt w"
  proof -
    show "0 < sqrt w" using w by simp
    show "sqrt w < 1" using w by simp
    have "w * w \<le> w * 1" using w by (intro mult_left_mono) simp_all
    then have "sqrt (w * w) \<le> sqrt w" by (simp only: real_sqrt_le_iff)
    moreover have "sqrt (w * w) = w" using w by simp
    ultimately show "w \<le> sqrt w" by simp
  qed
  have w4: "95 / 100 \<le> w ^ 2 * w * w"
  proof -
    have "(99 / 100) ^ 4 \<le> w ^ 4" using w by (intro power_mono) simp_all
    moreover have "(99 / 100 :: real) ^ 4 = 96059601 / 100000000" by (simp add: power4_eq_xxxx)
    moreover have "w ^ 4 = w ^ 2 * w * w" by (simp add: power4_eq_xxxx power2_eq_square)
    ultimately show ?thesis by linarith
  qed
  have axis: "\<And>a. 0 < a \<Longrightarrow> a * (95 / 100)
                \<le> magnitude_fl round_down \<lparr>x = a, y = 0, z = 0\<rparr>"
  proof -
    fix a :: real
    assume a: "0 < a"
    have "a * (95 / 100) \<le> a * (w ^ 2 * w * w)" using a w4 by (intro mult_left_mono) simp_all
    also have "\<dots> = (a * w ^ 2 * w) * w" by simp
    also have "\<dots> \<le> (a * w ^ 2 * w) * sqrt w"
      using a w sw(3) by (intro mult_left_mono) simp_all
    also have "\<dots> = (a * w ^ 2 * sqrt w) * w" by simp
    also have "\<dots> \<le> (a * w ^ 2 * sqrt w) * 1"
      using a w sw(1) by (intro mult_left_mono) simp_all
    finally show "a * (95 / 100) \<le> magnitude_fl round_down \<lparr>x = a, y = 0, z = 0\<rparr>"
      by (simp add: magnitude_fl_round_down_axis[OF a] w_def)
  qed
  define b1 where "b1 = Battleship_updatePropulsion_fl round_down 1 Battleship_resuming"
  have b1: "bs_maxSpeed b1 = 125" "bs_targetPosition b1 = Some \<lparr>x = 1000, y = 0, z = 0\<rparr>"
    "bs_position b1 = \<lparr>x = 675 / 2, y = 0, z = 0\<rparr>"
    "bs_velocity b1 = \<lparr>x = 675 / 4, y = 0, z = 0\<rparr>"
    by (simp_all add: b1_def Battleship_updatePropulsion_fl_def Battleship_resuming_fields Let_def)
  define D where "D = round_down (1325 / 2)"
  have D: "0 < D" using w by (simp add: D_def round_down_def w_def)
  have D100: "100 \<le> D * (95 / 100)"
  proof -
    have "(1325 / 2) * (99 / 100) \<le> (1325 / 2) * w" using w by (intro mult_left_mono) simp_all
    then show ?thesis by (simp add: D_def round_down_def w_def)
  qed
  define len where "len = magnitude_fl round_down \<lparr>x = D, y = 0, z = 0\<rparr>"
  have len: "100 \<le> len" "0 < len" using axis[OF D] D100 by (simp_all add: len_def)
  define N where "N = round_down (D / len)"
  have N: "0 < N" using D len w by (simp add: N_def round_down_def w_def)
  define acc where "acc = round_down (125 * round_down (3 / 10))"
  have acc: "0 < acc" using w by (simp add: acc_def round_down_def w_def)
  define A where "A = round_down (675 / 4 + round_down (round_down (N * acc) * 1))"
  have E: "0 < round_down (round_down (N * acc) * 1)"
    using N acc w by (simp add: round_down_def w_def)
  have A: "0 < A" "675 / 4 * w \<le> A"
  proof -
    have "675 / 4 \<le> 675 / 4 + round_down (round_down (N * acc) * 1)" using E by simp
    then have "675 / 4 * w \<le> (675 / 4 + round_down (round_down (N * acc) * 1)) * w"
      using w by (intro mult_right_mono) simp_all
    then show "675 / 4 * w \<le> A" by (simp add: A_def round_down_def w_def)
    moreover have "0 < 675 / 4 * w" using w by simp
    ultimately show "0 < A" by linarith
  qed
  have dir: "\<lparr>x = round_down (x \<lparr>x = 1000, y = 0, z = 0\<rparr> - x (bs_position b1)),
              y = round_down (y \<lparr>x = 1000, y = 0, z = 0\<rparr> - y (bs_position b1)),
              z = round_down (z \<lparr>x = 1000, y = 0, z = 0\<rparr> - z (bs_position b1))\<rparr>
             = \<lparr>x = D, y = 0, z = 0\<rparr>"
    by (simp add: b1 D_def)
  have nrm: "Utils_normalize_fl round_down \<lparr>x = D, y = 0, z = 0\<rparr> = \<lparr>x = N, y = 0, z = 0\<rparr>"
    using len by (simp add: Utils_normalize_fl_def Let_def len_def[symmetric] N_def)
  have v1: "\<lparr>x = round_down (x (bs_velocity b1) + round_down (round_down (x \<lparr>x = N, y = 0, z = 0\<rparr> * acc) * 1)),
             y = round_down (y (bs_velocity b1) + round_down (round_down (y \<lparr>x = N, y = 0, z = 0\<rparr> * acc) * 1)),
             z = round_down (z (bs_velocity b1) + round_down (round_down (z \<lparr>x = N, y = 0, z = 0\<rparr> * acc) * 1))\<rparr>
            = \<lparr>x = A, y = 0, z = 0\<rparr>"
    by (simp add: b1 A_def)
  have cvA: "125 < magnitude_fl round_down \<lparr>x = A, y = 0, z = 0\<rparr>"
  proof -
    have "675 / 4 * (99 / 100) \<le> 675 / 4 * w" using w by (intro mult_left_mono) simp_all
    with A(2) have "675 / 4 * (99 / 100) \<le> A" by linarith
    then have "125 < A * (95 / 100)" by simp
    with axis[OF A(1)] show ?thesis by linarith
  qed
  have "bs_velocity (Battleship_updateNavigation_fl round_down 1 b1) =
          (if magnitude_fl round_down \<lparr>x = A, y = 0, z = 0\<rparr> > bs_maxSpeed b1 then
             (let ratio = round_down (bs_maxSpeed b1 / magnitude_fl round_down \<lparr>x = A, y = 0, z = 0\<rparr>)
              in \<lparr>x = round_down (x \<lparr>x = A, y = 0, z = 0\<rparr> * ratio),
                  y = round_down (y \<lparr>x = A, y = 0, z = 0\<rparr> * ratio),
                  z = round_down (z \<lparr>x = A, y = 0, z = 0\<rparr> * ratio)\<rparr>)
           else \<lparr>x = A, y = 0, z = 0\<rparr>)"
  proof (rule updateNavigation_fl_pursuit_velocity[where p = "\<lparr>x = 1000, y = 0, z = 0\<rparr>"
        and n = "\<lparr>x = N, y = 0, z = 0\<rparr>" and acc = acc])
    show "bs_targetPosition b1 = Some \<lparr>x = 1000, y = 0, z = 0\<rparr>" by (rule b1(2))
    show "100 \<le> magnitude_fl round_down
            \<lparr>x = round_down (x \<lparr>x = 1000, y = 0, z = 0\<rparr> - x (bs_position b1)),
             y = round_down (y \<lparr>x = 1000, y = 0, z = 0\<rparr> - y (bs_position b1)),
             z = round_down (z \<lparr>x = 1000, y = 0, z = 0\<rparr> - z (bs_position b1))\<rparr>"
      unfolding dir using len(1) by (simp add: len_def)
    show "\<lparr>x = N, y = 0, z = 0\<rparr> = Utils_normalize_fl round_down
            \<lparr>x = round_down (x \<lparr>x = 1000, y = 0, z = 0\<rparr> - x (bs_position b1)),
             y = round_down (y \<lparr>x = 1000, y = 0, z = 0\<rparr> - y (bs_position b1)),
             z = round_down (z \<lparr>x = 1000, y = 0, z = 0\<rparr> - z (bs_position b1))\<rparr>"
      unfolding dir by (rule nrm[symmetric])
    show "acc = round_down (bs_maxSpeed b1 * round_down (3 / 10))"
      by (simp add: acc_def b1)
    show "\<lparr>x = A, y = 0, z = 0\<rparr> =
       \<lparr>x = round_down (x (bs_velocity b1) + round_down (round_down (x \<lparr>x = N, y = 0, z = 0\<rparr> * acc) * 1)),
        y = round_down (y (bs_velocity b1) + round_down (round_down (y \<lparr>x = N, y = 0, z = 0\<rparr> * acc) * 1)),
        z = round_down (z (bs_velocity b1) + round_down (round_down (z \<lparr>x = N, y = 0, z = 0\<rparr> * acc) * 1))\<rparr>"
      by (rule v1[symmetric])
  qed
  then have "magnitude (bs_velocity (Battleship_updateNavigation_fl round_down 1 b1))
               = 125 / sqrt (1 - unit_roundoff)"
    using clamp_axis_round_down[OF A(1), of 125] cvA by (simp only: b1(1))
  then have m: "magnitude (bs_velocity (Battleship_update_fl round_down 1 Battleship_resuming))
               = 125 / sqrt w"
    by (simp add: update_fl_velocity(1) b1_def w_def)
  have M: "bs_maxSpeed (Battleship_update_fl round_down 1 Battleship_resuming) = 125"
    by (simp add: update_fl_velocity(2) b1(1)[unfolded b1_def])
  have "125 * sqrt w < 125 * 1" using sw by (intro mult_strict_left_mono) simp_all
  then have "125 < 125 / sqrt w" using sw(1) by (simp add: field_simps)
  with m M show ?thesis by (simp add: w_def)
qed

section \<open>Enemy behaviour switches\<close>

lemma volley_loop_frame:
  "(fst (snd (EnemyShip_volley_loop n e R k ms)))\<lparr>en_launchedMissiles := L\<rparr>
     = e\<lparr>en_launchedMissiles := L\<rparr>"
  by (induction n arbitrary: e k ms) (simp_all add: Let_def Utils_randomFloat_def)

lemma volley_loop_launched:
  "length (en_launchedMissiles (fst (snd (EnemyShip_volley_loop n e R k ms))))
     = length (en_launchedMissiles e) + n"
  by (induction n arbitrary: e k ms) (simp_all add: Let_def Utils_randomFloat_def)

lemma volley_loop_returned:
  "length (fst (EnemyShip_volley_loop n e R k ms)) = length ms + n"
  by (induction n arbitrary: e k ms) (simp_all add: Let_def Utils_randomFloat_def)

lemma volley_loop_draws:
  "snd (snd (EnemyShip_volley_loop n e R k ms)) = k + 3 * n"
  by (induction n arbitrary: e k ms) (simp_all add: Let_def Utils_randomFloat_def)

lemma launchMissileVolley_frame:
  "(fst (snd (EnemyShip_launchMissileVolley e R k)))\<lparr>en_launchedMissiles := L\<rparr>
     = e\<lparr>en_launchedMissiles := L\<rparr>"
  by (simp add: EnemyShip_launchMissileVolley_def volley_loop_frame)

lemma launchMissileVolley_draws: "k \<le> snd (snd (EnemyShip_launchMissileVolley e R k))"
  by (simp add: EnemyShip_launchMissileVolley_def volley_loop_draws)

lemma launchMissileVolley_launched:
  "en_target e = PlayerTarget \<Longrightarrow>
   length (en_launchedMissiles (fst (snd (EnemyShip_launchMissileVolley e R k))))
     = length (en_launchedMissiles e) + nat (en_volleySize e)"
  by (simp add: EnemyShip_launchMissileVolley_def volley_loop_launched)

lemma launchMissileVolley_returned:
  "en_target e = PlayerTarget \<Longrightarrow>
   length (fst (EnemyShip_launchMissileVolley e R k)) = nat (en_volleySize e)"
  by (simp add: EnemyShip_launchMissileVolley_def volley_loop_returned)

lemma launch_field:
  "f (e'\<lparr>en_launchedMissiles := []\<rparr>) = f e' \<Longrightarrow> f (e\<lparr>en_launchedMissiles := []\<rparr>) = f e \<Longrightarrow>
   e' = fst (snd (EnemyShip_launchMissileVolley e R k)) \<Longrightarrow> f e' = f e"
  using launchMissileVolley_frame[where e = e and R = R and k = k and L = "[]"] by metis

lemma launchMissileVolley_fields:
  "en_behaviorChangeInterval (fst (snd (EnemyShip_launchMissileVolley e R k)))
     = en_behaviorChangeInterval e"
  "en_behaviorChangeTimer (fst (snd (EnemyShip_launchMissileVolley e R k)))
     = en_behaviorChangeTimer e"
  "en_maxSpeed (fst (snd (EnemyShip_launchMissileVolley e R k))) = en_maxSpeed e"
  "en_missileLaunchInterval (fst (snd (EnemyShip_launchMissileVolley e R k)))
     = en_missileLaunchInterval e"
  by (rule launch_field[where e = e and R = R and k = k], simp, simp, simp)+

lemma updateMovement_fields:
  "en_behaviorChangeInterval (EnemyShip_updateMovement dt e) = en_behaviorChangeInterval e"
  "en_behaviorChangeTimer (EnemyShip_updateMovement dt e) = en_behaviorChangeTimer e"
  "en_maxSpeed (EnemyShip_updateMovement dt e) = en_maxSpeed e"
  "en_target (EnemyShip_updateMovement dt e) = en_target e"
  "en_missileTimer (EnemyShip_updateMovement dt e) = en_missileTimer e"
  "en_missileLaunchInterval (EnemyShip_updateMovement dt e) = en_missileLaunchInterval e"
  "en_volleySize (EnemyShip_updateMovement dt e) = en_volleySize e"
  "en_launchedMissiles (EnemyShip_updateMovement dt e) = en_launchedMissiles e"
  by (simp_all add: EnemyShip_updateMovement_def Let_def split: option.splits)

lemma chooseNewBehavior_fields:
  "en_behaviorChangeInterval (fst (EnemyShip_chooseNewBehavior e bs R k))
     = en_behaviorChangeInterval e"
  "en_behaviorChangeTimer (fst (EnemyShip_chooseNewBehavior e bs R k)) = en_behaviorChangeTimer e"
  "en_target (fst (EnemyShip_chooseNewBehavior e bs R k)) = en_target e"
  "en_missileTimer (fst (EnemyShip_chooseNewBehavior e bs R k)) = en_missileTimer e"
  "en_missileLaunchInterval (fst (EnemyShip_chooseNewBehavior e bs R k))
     = en_missileLaunchInterval e"
  "en_volleySize (fst (EnemyShip_chooseNewBehavior e bs R k)) = en_volleySize e"
  "en_launchedMissiles (fst (EnemyShip_chooseNewBehavior e bs R k)) = en_launchedMissiles e"
  by (simp_all add: EnemyShip_chooseNewBehavior_def Let_def Utils_randomFloat_def
      Utils_randomPointOnSphere_def random_element_def
      split: target_ref.splits option.splits behavior.splits prod.splits)

text \<open>With a target, the new \<open>maxSpeed\<close> is \<open>randomFloat(200, 600)\<close> on the last draw made.\<close>

lemma chooseNewBehavior_maxSpeed:
  "en_target e = PlayerTarget \<Longrightarrow>
     k < snd (EnemyShip_chooseNewBehavior e bs R k)
     \<and> en_maxSpeed (fst (EnemyShip_chooseNewBehavior e bs R k))
         = fst (Utils_randomFloat 200 600 R (snd (EnemyShip_chooseNewBehavior e bs R k) - 1))"
  by (simp add: EnemyShip_chooseNewBehavior_def Let_def Utils_randomFloat_def
      Utils_randomPointOnSphere_def random_element_def
      split: target_ref.splits option.splits behavior.splits prod.splits)

lemmas enemy_frame = launchMissileVolley_fields updateMovement_fields chooseNewBehavior_fields

lemma EnemyShip_update_interval:
  "en_behaviorChangeInterval (fst (EnemyShip_update dt e bs R k)) = en_behaviorChangeInterval e"
  by (simp add: EnemyShip_update_def Let_def case_prod_unfold enemy_frame)

lemma EnemyShip_update_timer:
  "en_behaviorChangeTimer (fst (EnemyShip_update dt e bs R k)) =
     (if en_behaviorChangeTimer e - dt \<le> 0 then en_behaviorChangeInterval e
      else en_behaviorChangeTimer e - dt)"
  by (simp add: EnemyShip_update_def Let_def case_prod_unfold enemy_frame)

lemma EnemyShip_update_maxSpeed:
  "en_maxSpeed (fst (EnemyShip_update dt e bs R k)) =
     (if en_behaviorChangeTimer e - dt \<le> 0 then
        en_maxSpeed (fst (EnemyShip_chooseNewBehavior
                            (e\<lparr>en_behaviorChangeTimer := en_behaviorChangeTimer e - dt\<rparr>) bs R k))
      else en_maxSpeed e)"
  by (simp add: EnemyShip_update_def Let_def case_prod_unfold enemy_frame)

lemma EnemyShip_update_draws:
  "(if en_behaviorChangeTimer e - dt \<le> 0 then
      snd (EnemyShip_chooseNewBehavior
             (e\<lparr>en_behaviorChangeTimer := en_behaviorChangeTimer e - dt\<rparr>) bs R k)
    else k) \<le> snd (EnemyShip_update dt e bs R k)"
  by (simp add: EnemyShip_update_def Let_def case_prod_unfold launchMissileVolley_draws)

lemma EnemyShip_update_launched:
  "en_missileTimer e - dt \<le> 0 \<Longrightarrow> en_target e = PlayerTarget \<Longrightarrow>
   length (en_launchedMissiles (fst (EnemyShip_update dt e bs R k)))
     = length (en_launchedMissiles e) + nat (en_volleySize e)"
  by (simp add: EnemyShip_update_def Let_def case_prod_unfold enemy_frame
      launchMissileVolley_launched)

lemma randomFloat_range:
  "0 \<le> R j \<Longrightarrow> R j < 1 \<Longrightarrow> lo < hi \<Longrightarrow>
   lo \<le> fst (Utils_randomFloat lo hi R j) \<and> fst (Utils_randomFloat lo hi R j) < hi"
proof -
  assume a: "0 \<le> R j" "R j < 1" "lo < hi"
  then have "0 \<le> R j * (hi - lo)" by simp
  moreover from a have "R j * (hi - lo) < 1 * (hi - lo)"
    by (intro mult_strict_right_mono) simp_all
  ultimately show ?thesis by (simp add: Utils_randomFloat_def)
qed

lemma EnemyShip_new_interval:
  "en_behaviorChangeInterval (fst (EnemyShip_new ident tgt sp bs R k))
     = fst (Utils_randomFloat 5 20 R (k + (case sp of None \<Rightarrow> 6 | Some p \<Rightarrow> 3)))"
  by (simp add: EnemyShip_new_def Let_def case_prod_unfold chooseNewBehavior_fields
      Utils_randomFloat_def Utils_randomInt_def Utils_randomPointOnSphere_def
      EnemyShip_randomShipType_def random_element_def eval_nat_numeral split: option.splits)

text \<open>
  C7 as stated fails in its first half. The enemy below has a behaviour interval of 7 s and
  switches behaviour on this tick; every draw of the random source is 0.9, so that a re-roll
  in 5-20 s would give 18.5. After the tick the interval is still 7 and the timer has been
  reloaded with 7.
\<close>

theorem behaviorChangeInterval_not_rerolled:
  "en_behaviorChangeTimer enemy_cruiser - 1 \<le> 0
   \<and> en_behaviorChangeInterval enemy_cruiser = 7
   \<and> en_behaviorChangeInterval
        (fst (EnemyShip_update 1 enemy_cruiser Battleship_new draws_constant 0)) = 7
   \<and> en_behaviorChangeTimer
        (fst (EnemyShip_update 1 enemy_cruiser Battleship_new draws_constant 0)) = 7
   \<and> fst (Utils_randomFloat 5 20 draws_constant 0) = 37 / 2
   \<and> en_behaviorChangeInterval
        (fst (EnemyShip_update 1 enemy_cruiser Battleship_new draws_constant 0))
       \<noteq> fst (Utils_randomFloat 5 20 draws_constant 0)"
  by (simp add: EnemyShip_update_interval EnemyShip_update_timer enemy_cruiser_def
      Utils_randomFloat_def draws_constant_def)

text \<open>
  C7, amended. The behaviour-change interval is rolled once, in the constructor, as
  \<open>randomFloat(5, 20)\<close> of one draw (in \<open>[5, 20)\<close> when the draws lie in \<open>[0, 1)\<close>), and no
  tick changes it; a behaviour switch reloads the
  timer with that same interval. At every behaviour switch of an enemy that has a target,
  \<open>maxSpeed\<close> is re-rolled as \<open>randomFloat(200, 600)\<close> of a draw made during that tick, so it
  lies in \<open>[200, 600)\<close> when the draws lie in \<open>[0, 1)\<close>. (That the value is uniformly
  distributed is a property of \<open>Math.random\<close>, outside this model.)
\<close>

theorem behavior_switch_rolls:
  "en_behaviorChangeInterval (fst (EnemyShip_new ident tgt sp bs R k))
     = fst (Utils_randomFloat 5 20 R (k + (case sp of None \<Rightarrow> 6 | Some p \<Rightarrow> 3)))
   \<and> ((\<forall>i. 0 \<le> R i \<and> R i < 1) \<longrightarrow>
        5 \<le> en_behaviorChangeInterval (fst (EnemyShip_new ident tgt sp bs R k))
        \<and> en_behaviorChangeInterval (fst (EnemyShip_new ident tgt sp bs R k)) < 20)
   \<and> en_behaviorChangeInterval (fst (EnemyShip_update dt e bs R k)) = en_behaviorChangeInterval e
   \<and> (en_behaviorChangeTimer e - dt \<le> 0 \<longrightarrow>
        en_behaviorChangeTimer (fst (EnemyShip_update dt e bs R k)) = en_behaviorChangeInterval e
        \<and> (en_target e = PlayerTarget \<longrightarrow>
             (\<exists>j. k \<le> j \<and> j < snd (EnemyShip_update dt e bs R k)
                  \<and> en_maxSpeed (fst (EnemyShip_update dt e bs R k))
                      = fst (Utils_randomFloat 200 600 R j))
             \<and> ((\<forall>i. 0 \<le> R i \<and> R i < 1) \<longrightarrow>
                  200 \<le> en_maxSpeed (fst (EnemyShip_update dt e bs R k))
                  \<and> en_maxSpeed (fst (EnemyShip_update dt e bs R k)) < 600)))"
proof (intro conjI impI)
  show "en_behaviorChangeInterval (fst (EnemyShip_new ident tgt sp bs R k))
     = fst (Utils_randomFloat 5 20 R (k + (case sp of None \<Rightarrow> 6 | Some p \<Rightarrow> 3)))"
    by (rule EnemyShip_new_interval)
next
  assume r: "\<forall>i. 0 \<le> R i \<and> R i < 1"
  define j where "j = k + (case sp of None \<Rightarrow> 6 | Some p \<Rightarrow> 3)"
  from r have "0 \<le> R j" "R j < 1" by simp_all
  with randomFloat_range[where R = R and j = j and lo = 5 and hi = 20]
  have "5 \<le> fst (Utils_randomFloat 5 20 R j) \<and> fst (Utils_randomFloat 5 20 R j) < 20"
    by simp
  then show "5 \<le> en_behaviorChangeInterval (fst (EnemyShip_new ident tgt sp bs R k))"
    "en_behaviorChangeInterval (fst (EnemyShip_new ident tgt sp bs R k)) < 20"
    by (simp_all add: EnemyShip_new_interval j_def)
next
  show "en_behaviorChangeInterval (fst (EnemyShip_update dt e bs R k)) = en_behaviorChangeInterval e"
    by (rule EnemyShip_update_interval)
next
  assume "en_behaviorChangeTimer e - dt \<le> 0"
  then show "en_behaviorChangeTimer (fst (EnemyShip_update dt e bs R k))
               = en_behaviorChangeInterval e"
    by (simp add: EnemyShip_update_timer)
next
  assume sw: "en_behaviorChangeTimer e - dt \<le> 0" and tg: "en_target e = PlayerTarget"
  define e1 where "e1 = e\<lparr>en_behaviorChangeTimer := en_behaviorChangeTimer e - dt\<rparr>"
  define kc where "kc = snd (EnemyShip_chooseNewBehavior e1 bs R k)"
  from tg have "en_target e1 = PlayerTarget" by (simp add: e1_def)
  from chooseNewBehavior_maxSpeed[OF this, of k bs R]
  have c: "k < kc"
    "en_maxSpeed (fst (EnemyShip_chooseNewBehavior e1 bs R k))
       = fst (Utils_randomFloat 200 600 R (kc - 1))"
    by (simp_all add: kc_def)
  from sw have m: "en_maxSpeed (fst (EnemyShip_update dt e bs R k))
                     = fst (Utils_randomFloat 200 600 R (kc - 1))"
    by (simp add: EnemyShip_update_maxSpeed c(2)[unfolded e1_def])
  from sw EnemyShip_update_draws[of e dt bs R k]
  have d: "kc \<le> snd (EnemyShip_update dt e bs R k)"
    by (simp add: kc_def e1_def)
  from c(1) d m
  have "k \<le> kc - 1 \<and> kc - 1 < snd (EnemyShip_update dt e bs R k)
        \<and> en_maxSpeed (fst (EnemyShip_update dt e bs R k))
            = fst (Utils_randomFloat 200 600 R (kc - 1))"
    by auto
  then show "\<exists>j. k \<le> j \<and> j < snd (EnemyShip_update dt e bs R k)
                  \<and> en_maxSpeed (fst (EnemyShip_update dt e bs R k))
                      = fst (Utils_randomFloat 200 600 R j)"
    by blast
  assume r: "\<forall>i. 0 \<le> R i \<and> R i < 1"
  then have "0 \<le> R (kc - 1)" "R (kc - 1) < 1" by simp_all
  with randomFloat_range[where R = R and j = "kc - 1" and lo = 200 and hi = 600] m
  show "200 \<le> en_maxSpeed (fst (EnemyShip_update dt e bs R k))"
       "en_maxSpeed (fst (EnemyShip_update dt e bs R k)) < 600" by simp_all
qed

text \<open>
  C7 amended, on the enemy above: the timer is reloaded with the interval 7, and the new
  \<open>maxSpeed\<close> is \<open>0.9 * 400 + 200 = 560\<close>; and an enemy spawned on the same draws gets the
  interval \<open>0.9 * 15 + 5 = 18.5\<close>.
\<close>

theorem behavior_switch_rolls_witness:
  "en_behaviorChangeTimer enemy_cruiser - 1 \<le> 0 \<and> en_target enemy_cruiser = PlayerTarget
   \<and> en_behaviorChangeTimer
        (fst (EnemyShip_update 1 enemy_cruiser Battleship_new draws_constant 0)) = 7
   \<and> en_maxSpeed (fst (EnemyShip_update 1 enemy_cruiser Battleship_new draws_constant 0)) = 560
   \<and> 200 \<le> en_maxSpeed (fst (EnemyShip_update 1 enemy_cruiser Battleship_new draws_constant 0))
   \<and> en_maxSpeed (fst (EnemyShip_update 1 enemy_cruiser Battleship_new draws_constant 0)) < 600
   \<and> en_behaviorChangeInterval
        (fst (EnemyShip_new 1 PlayerTarget None Battleship_new draws_constant 0)) = 37 / 2"
proof -
  have h: "en_behaviorChangeTimer enemy_cruiser - 1 \<le> 0" "en_target enemy_cruiser = PlayerTarget"
    "en_behaviorChangeInterval enemy_cruiser = 7"
    by (simp_all add: enemy_cruiser_def)
  have d: "\<forall>i. 0 \<le> draws_constant i \<and> draws_constant i < 1"
    by (simp add: draws_constant_def)
  note rolls = behavior_switch_rolls
               [of 1 PlayerTarget None Battleship_new draws_constant 0 1 enemy_cruiser]
  from rolls h(1,2)
  obtain j where
    t: "en_behaviorChangeTimer (fst (EnemyShip_update 1 enemy_cruiser Battleship_new draws_constant 0))
          = en_behaviorChangeInterval enemy_cruiser"
    and m: "en_maxSpeed (fst (EnemyShip_update 1 enemy_cruiser Battleship_new draws_constant 0))
          = fst (Utils_randomFloat 200 600 draws_constant j)"
    by blast
  from m have v: "en_maxSpeed (fst (EnemyShip_update 1 enemy_cruiser Battleship_new draws_constant 0))
                 = 560"
    by (simp add: Utils_randomFloat_def draws_constant_def)
  from rolls h(1,2) d
  have b: "200 \<le> en_maxSpeed (fst (EnemyShip_update 1 enemy_cruiser Battleship_new draws_constant 0))
           \<and> en_maxSpeed (fst (EnemyShip_update 1 enemy_cruiser Battleship_new draws_constant 0)) < 600"
    by blast
  from rolls
  have "en_behaviorChangeInterval (fst (EnemyShip_new 1 PlayerTarget None Battleship_new draws_constant 0))
          = fst (Utils_randomFloat 5 20 draws_constant
                   (0 + (case None :: Vector3 option of None \<Rightarrow> 6 | Some p \<Rightarrow> 3)))"
    by blast
  then have i: "en_behaviorChangeInterval
                  (fst (EnemyShip_new 1 PlayerTarget None Battleship_new draws_constant 0)) = 37 / 2"
    by (simp add: Utils_randomFloat_def draws_constant_def)
  from h t v b i show ?thesis by simp
qed

section \<open>The scheduler's tick\<close>

lemma tick_enemies_missiles:
  "fst (snd (SimulationManager_tick_enemies dt es bs R k ms st)) = ms"
  by (induction es arbitrary: k ms st)
     (simp_all add: Let_def case_prod_unfold SimulationManager_checkEnemyMissileLaunch_def)

lemma tick_enemies_stats:
  "fst (snd (snd (SimulationManager_tick_enemies dt es bs R k ms st))) = st"
  by (induction es arbitrary: k ms st)
     (simp_all add: Let_def case_prod_unfold SimulationManager_checkEnemyMissileLaunch_def)

lemma tick_enemies_hd:
  "hd (fst (SimulationManager_tick_enemies dt (e # es) bs R k ms st))
     = fst (EnemyShip_update dt e bs R k)"
  by (simp add: Let_def case_prod_unfold)

text \<open>No missile update throws, so the pass over the missiles always completes.\<close>

lemma tick_missiles_total: "\<exists>r. SimulationManager_tick_missiles dt ms bs = Inr r"
proof (induction ms arbitrary: bs)
  case Nil
  show ?case by simp
next
  case (Cons m ms)
  obtain m' bs1 where u: "Missile_update dt m bs = Inr (m', bs1)"
    using Missile_update_total[of dt m bs] by auto
  obtain r1 where r1: "SimulationManager_tick_missiles dt ms bs1 = Inr r1"
    using Cons.IH by blast
  obtain r2 where r2: "SimulationManager_tick_missiles dt ms bs = Inr r2"
    using Cons.IH by blast
  show ?case using u r1 r2 by (cases r1; cases r2) simp
qed

text \<open>
  The tick, written out: the enemies' pass leaves the tracked missiles and the statistics
  as they were, and the retention filter keeps exactly the missiles that are alive.
\<close>

lemma tick_result:
  "SimulationManager_tick_missiles (sm_tickRate s / 1000) (sm_missiles s)
      (Battleship_update (sm_tickRate s / 1000) (sm_battleship s)) = Inr (ms2, bs2) \<Longrightarrow>
   SimulationManager_tick now R k s =
     Inr (s\<lparr>sm_battleship := bs2,
            sm_enemies := fst (SimulationManager_tick_enemies (sm_tickRate s / 1000) (sm_enemies s)
                                 (Battleship_update (sm_tickRate s / 1000) (sm_battleship s)) R k
                                 (sm_missiles s) (sm_stats s)),
            sm_missiles := filter ms_alive ms2,
            sm_stats := sm_stats s\<rparr>,
          snd (snd (snd (SimulationManager_tick_enemies (sm_tickRate s / 1000) (sm_enemies s)
                                 (Battleship_update (sm_tickRate s / 1000) (sm_battleship s)) R k
                                 (sm_missiles s) (sm_stats s)))))"
proof -
  have r: "SimulationManager_retained now = ms_alive"
    by (rule ext) (simp add: SimulationManager_retained_def Missile_destroyTime_def)
  assume "SimulationManager_tick_missiles (sm_tickRate s / 1000) (sm_missiles s)
      (Battleship_update (sm_tickRate s / 1000) (sm_battleship s)) = Inr (ms2, bs2)"
  then show ?thesis
    by (simp add: SimulationManager_tick_def Let_def case_prod_unfold tick_enemies_missiles
        tick_enemies_stats r)
qed

lemma Battleship_new_idle: "Battleship_update 1 Battleship_new = Battleship_new"
  by (simp add: Battleship_update_def Battleship_updatePropulsion_def
      Battleship_updateNavigation_def Battleship_rechargeCapacitor_def Battleship_new_def
      Smartbomb_update_def Smartbomb_new_def Let_def)

lemma manager_fields:
  "sm_tickRate manager_first_volley / 1000 = 1"
  "sm_missiles manager_first_volley = []"
  "sm_battleship manager_first_volley = Battleship_new"
  "sm_enemies manager_first_volley = [enemy_cruiser]"
  "missilesLaunched (sm_stats manager_first_volley) = 0"
  "sm_tickRate manager_tracking / 1000 = 1"
  "sm_missiles manager_tracking = [missile_cruising, missile_expiring]"
  "sm_battleship manager_tracking = Battleship_new"
  "sm_enemies manager_tracking = [enemy_cruiser]"
  by (simp_all add: manager_first_volley_def manager_tracking_def SimulationManager_new_def
      SimulationManager_addMissiles_def)

text \<open>
  C1. The claim has the projectiles of a volley appended to the tracked set and counted in
  \<open>missilesLaunched\<close> on the tick of the launch. On a scheduler of the constructor whose one
  enemy has its missile timer elapse on this tick, the enemy launches its volley of 3 (they
  are in its own \<open>launchedMissiles\<close>), and after the tick the tracked set is still empty and
  \<open>missilesLaunched\<close> is still 0: \<open>update\<close> drops the array \<open>launchMissileVolley\<close> returns, and
  \<open>checkEnemyMissileLaunch\<close>, whose result the tick appends and counts, always returns \<open>[]\<close>.
\<close>

theorem tick_discards_launched_volley:
  "en_missileTimer enemy_cruiser - 1 \<le> 0 \<and> en_target enemy_cruiser = PlayerTarget
   \<and> \<not> isl (SimulationManager_tick 0 draws_constant 0 manager_first_volley)
   \<and> length (en_launchedMissiles (hd (sm_enemies (fst (projr
        (SimulationManager_tick 0 draws_constant 0 manager_first_volley)))))) = 3
   \<and> sm_missiles (fst (projr (SimulationManager_tick 0 draws_constant 0 manager_first_volley))) = []
   \<and> missilesLaunched (sm_stats (fst (projr
        (SimulationManager_tick 0 draws_constant 0 manager_first_volley)))) = 0"
proof -
  have h: "en_missileTimer enemy_cruiser - 1 \<le> 0" "en_target enemy_cruiser = PlayerTarget"
    "nat (en_volleySize enemy_cruiser) = 3" "en_launchedMissiles enemy_cruiser = []"
    by (simp_all add: enemy_cruiser_def)
  have "SimulationManager_tick_missiles (sm_tickRate manager_first_volley / 1000)
          (sm_missiles manager_first_volley)
          (Battleship_update (sm_tickRate manager_first_volley / 1000)
             (sm_battleship manager_first_volley))
        = Inr ([], Battleship_new)"
    by (simp add: manager_fields Battleship_new_idle)
  from tick_result[OF this, of 0 draws_constant 0]
  show ?thesis
    using h by (simp add: manager_fields tick_enemies_hd EnemyShip_update_launched
        del: SimulationManager_tick_enemies.simps)
qed

text \<open>
  C9. Every tick completes, and after it every missile left in the tracked set is alive: the
  set is exactly the alive ones among the missiles as the tick's update pass left them, so
  a missile destroyed during a tick is pruned in that same tick.
\<close>

theorem tick_prunes_dead_missiles:
  "\<exists>s' k' ms2 bs2.
     SimulationManager_tick now R k s = Inr (s', k')
     \<and> SimulationManager_tick_missiles (sm_tickRate s / 1000) (sm_missiles s)
         (Battleship_update (sm_tickRate s / 1000) (sm_battleship s)) = Inr (ms2, bs2)
     \<and> sm_missiles s' = filter ms_alive ms2
     \<and> (\<forall>m \<in> set (sm_missiles s'). ms_alive m)"
proof -
  obtain ms2 bs2 where
    u: "SimulationManager_tick_missiles (sm_tickRate s / 1000) (sm_missiles s)
      (Battleship_update (sm_tickRate s / 1000) (sm_battleship s)) = Inr (ms2, bs2)"
    using tick_missiles_total by (metis surj_pair)
  from tick_result[OF u, of now R k] u show ?thesis by simp
qed

lemma missile_cruising_update:
  "Missile_update 1 missile_cruising Battleship_new
     = Inr (missile_cruising\<lparr>ms_flightTime := 1, ms_position := \<lparr>x = 7000, y = 0, z = 0\<rparr>\<rparr>,
            Battleship_new)"
  by (simp add: Missile_update_def Missile_destroy_def missile_cruising_def
      Missile_new_def Battleship_new_def Let_def)

lemma missile_expiring_update:
  "Missile_update 1 missile_expiring Battleship_new
     = Inr (missile_expiring\<lparr>ms_flightTime := 20, ms_alive := False\<rparr>, Battleship_new)"
  by (simp add: Missile_update_def Missile_destroy_def missile_expiring_def
      Missile_new_def Battleship_new_def Let_def)

lemma tracking_missiles:
  "SimulationManager_tick_missiles 1 [missile_cruising, missile_expiring] Battleship_new
     = Inr ([missile_cruising\<lparr>ms_flightTime := 1, ms_position := \<lparr>x = 7000, y = 0, z = 0\<rparr>\<rparr>,
             missile_expiring\<lparr>ms_flightTime := 20, ms_alive := False\<rparr>], Battleship_new)"
proof -
  have "ms_alive missile_cruising" "ms_alive missile_expiring"
    by (simp_all add: missile_cruising_def missile_expiring_def Missile_new_def)
  then show ?thesis
    by (simp add: missile_cruising_update missile_expiring_update)
qed

text \<open>
  C9, on a scheduler tracking a missile in flight and a missile in its twentieth second:
  the second one times out during the tick and is gone after it; the first one stays.
\<close>

theorem tick_prunes_dead_missiles_witness:
  "sm_missiles (fst (projr (SimulationManager_tick 0 draws_constant 0 manager_tracking)))
     = [missile_cruising\<lparr>ms_flightTime := 1, ms_position := \<lparr>x = 7000, y = 0, z = 0\<rparr>\<rparr>]
   \<and> ms_alive (missile_cruising\<lparr>ms_flightTime := 1, ms_position := \<lparr>x = 7000, y = 0, z = 0\<rparr>\<rparr>)"
proof -
  have "SimulationManager_tick_missiles (sm_tickRate manager_tracking / 1000)
          (sm_missiles manager_tracking)
          (Battleship_update (sm_tickRate manager_tracking / 1000) (sm_battleship manager_tracking))
        = Inr ([missile_cruising\<lparr>ms_flightTime := 1, ms_position := \<lparr>x = 7000, y = 0, z = 0\<rparr>\<rparr>,
             missile_expiring\<lparr>ms_flightTime := 20, ms_alive := False\<rparr>], Battleship_new)"
    by (simp only: manager_fields Battleship_new_idle tracking_missiles)
  from tick_result[OF this, of 0 draws_constant 0]
  have v: "sm_missiles (fst (projr (SimulationManager_tick 0 draws_constant 0 manager_tracking)))
     = [missile_cruising\<lparr>ms_flightTime := 1, ms_position := \<lparr>x = 7000, y = 0, z = 0\<rparr>\<rparr>]"
    by (simp add: missile_cruising_def Missile_new_def)
  from tick_prunes_dead_missiles[of 0 draws_constant 0 manager_tracking]
  obtain s' k' where t: "SimulationManager_tick 0 draws_constant 0 manager_tracking = Inr (s', k')"
    and a: "\<forall>m \<in> set (sm_missiles s'). ms_alive m" by blast
  from t v have "sm_missiles s'
      = [missile_cruising\<lparr>ms_flightTime := 1, ms_position := \<lparr>x = 7000, y = 0, z = 0\<rparr>\<rparr>]"
    by simp
  with a have "ms_alive (missile_cruising\<lparr>ms_flightTime := 1,
                                          ms_position := \<lparr>x = 7000, y = 0, z = 0\<rparr>\<rparr>)"
    by simp
  with v show ?thesis by simp
qed

end
